theory Spec2Isabelle
  imports Complex_Main "HOL-Library.Sublist" "HOL-Library.Multiset"
    "HOL-Library.Char_ord" "HOL-Library.List_Lexorder" "HOL-Library.Product_Lexorder"
begin

section \<open>Python strings\<close>

text \<open>
  A Python \<open>str\<close> is modelled as a \<open>string\<close> whose characters stand for the code
  points 0 to 255. Python floats are modelled as real numbers with exact arithmetic.
\<close>

definition py_isspace :: "char \<Rightarrow> bool" where
  "py_isspace c =
     (let n = (of_char c :: nat)
      in (9 \<le> n \<and> n \<le> 13) \<or> (28 \<le> n \<and> n \<le> 32) \<or> n = 133 \<or> n = 160)"

definition py_strip :: "string \<Rightarrow> string" where
  "py_strip s = rev (dropWhile py_isspace (rev (dropWhile py_isspace s)))"

definition py_lower_char :: "char \<Rightarrow> char" where
  "py_lower_char c =
     (let n = (of_char c :: nat)
      in if (65 \<le> n \<and> n \<le> 90) \<or> (192 \<le> n \<and> n \<le> 222 \<and> n \<noteq> 215)
         then char_of (n + 32) else c)"

definition py_lower :: "string \<Rightarrow> string" where
  "py_lower s = map py_lower_char s"

text \<open>\<open>pat in text\<close> on strings: substring containment.\<close>

fun py_in :: "string \<Rightarrow> string \<Rightarrow> bool" where
  "py_in pat [] = (pat = [])"
| "py_in pat (c # cs) = (if prefix pat (c # cs) then True else py_in pat cs)"

text \<open>\<open>re.split(r"[.!?\n]+", text)\<close>: the pieces between maximal runs of delimiters.\<close>

definition is_sentence_delim :: "char \<Rightarrow> bool" where
  "is_sentence_delim c = (c = CHR ''.'' \<or> c = CHR ''!'' \<or> c = CHR ''?'' \<or> c = CHR 0x0A)"

fun split_run :: "bool \<Rightarrow> string \<Rightarrow> string \<Rightarrow> string list" where
  "split_run in_run cur [] = [rev cur]"
| "split_run in_run cur (c # cs) =
     (if is_sentence_delim c
      then (if in_run then split_run True cur cs else rev cur # split_run True [] cs)
      else split_run False (c # cur) cs)"

definition re_split_sentences :: "string \<Rightarrow> string list" where
  "re_split_sentences text = split_run False [] text"

text \<open>\<open>WORD_RE.findall\<close> for \<open>[a-zA-Z_][a-zA-Z0-9_+-]*\<close>.\<close>

definition is_ascii_alpha :: "char \<Rightarrow> bool" where
  "is_ascii_alpha c =
     (let n = (of_char c :: nat) in (65 \<le> n \<and> n \<le> 90) \<or> (97 \<le> n \<and> n \<le> 122))"

definition is_word_start :: "char \<Rightarrow> bool" where
  "is_word_start c = (is_ascii_alpha c \<or> c = CHR ''_'')"

definition is_word_char :: "char \<Rightarrow> bool" where
  "is_word_char c =
     (let n = (of_char c :: nat)
      in is_ascii_alpha c \<or> (48 \<le> n \<and> n \<le> 57) \<or> c = CHR ''_'' \<or> c = CHR ''+'' \<or> c = CHR ''-'')"

fun findall_words :: "string option \<Rightarrow> string \<Rightarrow> string list" where
  "findall_words None [] = []"
| "findall_words (Some t) [] = [rev t]"
| "findall_words None (c # cs) =
     (if is_word_start c then findall_words (Some [c]) cs else findall_words None cs)"
| "findall_words (Some t) (c # cs) =
     (if is_word_char c then findall_words (Some (c # t)) cs
      else rev t # findall_words None cs)"

section \<open>models.py and config.py\<close>

record RedditPost =
  post_id :: string
  subreddit :: string
  title :: string
  selftext :: string
  permalink :: string
  url :: string
  author :: string
  created_utc :: int
  num_comments :: int
  upvotes :: int
  is_self :: bool

record IdeaCandidate =
  idea_post_id :: string
  idea_subreddit :: string
  idea_title :: string
  problem_summary :: string
  solution_hint :: string
  relevance_score :: real
  reason_tags :: "string list"
  idea_created_utc :: int
  idea_permalink :: string
  idea_url :: string
  idea_author :: string
  idea_num_comments :: int
  idea_upvotes :: int
  llm_profit_score :: "real option"
  llm_confidence :: "real option"

record SmtpConfig =
  host :: string
  port :: int
  user :: string
  password :: string
  email_to :: string

record TelegramConfig =
  bot_token :: string
  chat_id :: string

record GeminiConfig =
  enabled :: bool
  api_key :: string
  model :: string
  temperature :: real
  max_candidates :: int
  timeout_seconds :: int

record AppConfig =
  subreddits :: "string list"
  lookback_hours :: int
  max_posts_per_subreddit :: int
  min_score :: real
  report_top_n :: int
  data_dir :: string
  output_dir :: string
  user_agent :: string
  include_keywords :: "string list"
  exclude_keywords :: "string list"
  smtp :: "SmtpConfig option"
  telegram :: "TelegramConfig option"
  gemini :: "GeminiConfig option"

section \<open>extractor.py\<close>

definition PAIN_SIGNALS :: "string list" where
  "PAIN_SIGNALS = [''problem'', ''issue'', ''frustrat'', ''pain'', ''manual'', ''slow'',
     ''time-consuming'', ''stuck'']"

definition SOLUTION_SIGNALS :: "string list" where
  "SOLUTION_SIGNALS = [''automate'', ''tool'', ''app'', ''website'', ''script'', ''plugin'',
     ''bot'', ''saas'']"

definition MONETIZATION_SIGNALS :: "string list" where
  "MONETIZATION_SIGNALS = [''passive income'', ''subscription'', ''monetiz'', ''affiliate'',
     ''mrr'', ''side hustle'']"

definition contains_any :: "string \<Rightarrow> string list \<Rightarrow> bool" where
  "contains_any text patterns = list_ex (\<lambda>pattern. py_in pattern text) patterns"

definition keyword_hits :: "string \<Rightarrow> string list \<Rightarrow> int" where
  "keyword_hits text keywords =
     int (length (filter (\<lambda>keyword. py_in (py_lower keyword) text) keywords))"

definition tokenize :: "string \<Rightarrow> string list" where
  "tokenize text = findall_words None (py_lower text)"

definition log10 :: "int \<Rightarrow> real" where
  "log10 n = log 10 (real_of_int n)"

definition py_sorted_set :: "string list \<Rightarrow> string list" where
  "py_sorted_set tags = sort (remdups tags)"

definition score_post :: "RedditPost \<Rightarrow> AppConfig \<Rightarrow> real \<times> string list" where
  "score_post post config =
     (let text = py_lower (title post @ [CHR 0x0A] @ selftext post);
          include_hits = keyword_hits text (include_keywords config);
          (score1, tags1) =
             (if include_hits \<noteq> 0
              then (min (real_of_int include_hits * 0.45) 3.0, [''keyword_match''])
              else (0, []));
          exclude_hits = keyword_hits text (exclude_keywords config);
          (score2, tags2) =
             (if exclude_hits \<noteq> 0
              then (score1 - min (real_of_int exclude_hits * 0.9) 2.5, tags1 @ [''noise_signal''])
              else (score1, tags1));
          (score3, tags3) =
             (if contains_any text PAIN_SIGNALS
              then (score2 + 0.9, tags2 @ [''pain_point'']) else (score2, tags2));
          (score4, tags4) =
             (if contains_any text SOLUTION_SIGNALS
              then (score3 + 0.9, tags3 @ [''solution_possible'']) else (score3, tags3));
          (score5, tags5) =
             (if contains_any text MONETIZATION_SIGNALS
              then (score4 + 1.1, tags4 @ [''monetization'']) else (score4, tags4));
          score6 = score5 + min (log10 (max (num_comments post) 1)) 1.0 * 0.5;
          score7 = score6 + min (log10 (max (upvotes post) 1)) 2.0 * 0.35;
          title_tokens = tokenize (title post);
          score8 = (if length title_tokens \<ge> 6 then score7 + 0.2 else score7);
          (score9, tags9) =
             (if CHR ''?'' \<in> set (title post)
              then (score8 + 0.25, tags5 @ [''question'']) else (score8, tags5));
          score10 =
             (if py_in ''discussion'' text \<or> py_in ''idea'' text \<or> py_in ''feedback'' text
              then score9 + 0.15 else score9);
          tags10 = (if tags9 = [] then [''low_signal''] else tags9)
      in (score10, py_sorted_set tags10))"

text \<open>The loop of \<open>derive_problem_summary\<close>: the first stripped, non-empty sentence whose
  lower-cased text contains a pain signal.\<close>

fun first_pain_sentence :: "string list \<Rightarrow> string option" where
  "first_pain_sentence [] = None"
| "first_pain_sentence (sentence # sentences) =
     (let s = py_strip sentence
      in if s = [] then first_pain_sentence sentences
         else if contains_any (py_lower s) PAIN_SIGNALS then Some s
         else first_pain_sentence sentences)"

definition derive_problem_summary :: "RedditPost \<Rightarrow> string" where
  "derive_problem_summary post =
     (let text = py_strip (selftext post)
      in if text = [] then take 220 (title post)
         else (let sentences = re_split_sentences text
               in case first_pain_sentence sentences of
                    Some s \<Rightarrow> take 220 s
                  | None \<Rightarrow>
                      (let first = (case sentences of [] \<Rightarrow> [] | s0 # _ \<Rightarrow> py_strip s0)
                       in if first \<noteq> [] then take 220 first else take 220 (title post))))"

definition derive_solution_hint :: "RedditPost \<Rightarrow> string list \<Rightarrow> string" where
  "derive_solution_hint post tags =
     (let text = py_lower (title post @ [CHR 0x0A] @ selftext post)
      in if ''monetization'' \<in> set tags
         then ''Test a lightweight SaaS or template product with recurring pricing.''
         else if contains_any text [''freelance'', ''client'', ''proposal'', ''invoice'']
         then ''Build a workflow helper for freelancers with automation and reporting.''
         else if contains_any text [''vibe coding'', ''coding agent'', ''prompt'', ''ai tool'']
         then ''Create an AI-assisted coding utility focused on one repetitive task.''
         else if contains_any text [''team'', ''manager'', ''meeting'', ''calendar'']
         then ''Package this pain point into a micro-tool that reduces daily coordination work.''
         else ''Validate demand with a small automation tool and a narrow landing page.'')"

text \<open>Python's \<open>round(x, 3)\<close>: to three decimals, ties to the even neighbour.\<close>

definition py_round :: "nat \<Rightarrow> real \<Rightarrow> real" where
  "py_round nd x =
     (let y = x * 10 ^ nd; f = \<lfloor>y\<rfloor>; d = y - real_of_int f
      in real_of_int (if d < 1 / 2 then f else if 1 / 2 < d then f + 1
                      else if even f then f else f + 1) / 10 ^ nd)"

definition make_idea :: "RedditPost \<Rightarrow> real \<Rightarrow> string list \<Rightarrow> IdeaCandidate" where
  "make_idea post score tags =
     \<lparr> idea_post_id = post_id post,
       idea_subreddit = subreddit post,
       idea_title = title post,
       problem_summary = derive_problem_summary post,
       solution_hint = derive_solution_hint post tags,
       relevance_score = py_round 3 score,
       reason_tags = tags,
       idea_created_utc = created_utc post,
       idea_permalink = permalink post,
       idea_url = url post,
       idea_author = author post,
       idea_num_comments = num_comments post,
       idea_upvotes = upvotes post,
       llm_profit_score = None,
       llm_confidence = None \<rparr>"

fun extract_loop :: "RedditPost list \<Rightarrow> AppConfig \<Rightarrow> IdeaCandidate list" where
  "extract_loop [] config = []"
| "extract_loop (post # posts) config =
     (case score_post post config of (score, tags) \<Rightarrow>
        if score < min_score config then extract_loop posts config
        else make_idea post score tags # extract_loop posts config)"

text \<open>\<open>list.sort(key=k, reverse=True)\<close> is stable: elements with equal keys keep their
  order, the others are put in descending order of the key.\<close>

definition py_sort_desc :: "('a \<Rightarrow> real) \<Rightarrow> 'a list \<Rightarrow> 'a list" where
  "py_sort_desc k xs = sort_key (\<lambda>x. - k x) xs"

definition extract_ideas :: "RedditPost list \<Rightarrow> AppConfig \<Rightarrow> IdeaCandidate list" where
  "extract_ideas posts config = py_sort_desc relevance_score (extract_loop posts config)"

text \<open>The per-post result of the loop body of \<open>extract_ideas\<close>, and its filter.\<close>

definition qualifies :: "AppConfig \<Rightarrow> RedditPost \<Rightarrow> bool" where
  "qualifies config post = (min_score config \<le> fst (score_post post config))"

definition idea_of_post :: "AppConfig \<Rightarrow> RedditPost \<Rightarrow> IdeaCandidate" where
  "idea_of_post config post =
     make_idea post (fst (score_post post config)) (snd (score_post post config))"

section \<open>Exceptions\<close>

text \<open>
  A raised exception, with the name of its class and its text: \<open>Exn\<close> for an instance
  of \<open>Exception\<close>, \<open>BaseExn\<close> for one that is not (\<open>KeyboardInterrupt\<close>,
  \<open>SystemExit\<close>), which \<open>except Exception\<close> does not catch.
\<close>

datatype exn =
    is_exception: Exn (exn_type: string) (exn_msg: string)
  | BaseExn (exn_type: string) (exn_msg: string)

section \<open>storage.py\<close>

text \<open>
  The three tables are lists of rows in insertion order. Where an \<open>ORDER BY\<close> leaves
  the order of two rows open, the model keeps the order of insertion. An \<open>INTEGER\<close>
  column holds a signed 64-bit value: \<open>sqlite3\<close> raises \<open>OverflowError\<close> when it
  binds a Python int outside that range, and the batch, which is committed only after
  \<open>executemany\<close> returns, is then not stored at all.
\<close>

definition fits_int64 :: "int \<Rightarrow> bool" where
  "fits_int64 n = (- (2 ^ 63) \<le> n \<and> n < 2 ^ 63)"

definition overflow_error :: exn where
  "overflow_error = Exn ''OverflowError'' ''Python int too large to convert to SQLite INTEGER''"

record RunLog =
  run_id :: int
  period :: string
  run_day_utc :: string
  run_started_utc :: int
  run_finished_utc :: "int option"
  status :: string
  fetched_posts :: int
  extracted_ideas :: int
  window_ideas :: int
  email_sent :: bool
  message :: string

record IdeaRow =
  r_post_id :: string
  r_subreddit :: string
  r_title :: string
  r_problem_summary :: string
  r_solution_hint :: string
  r_relevance_score :: real
  r_reason_tags :: string
  r_created_utc :: int
  r_permalink :: string
  r_url :: string
  r_author :: string
  r_num_comments :: int
  r_upvotes :: int
  r_llm_profit_score :: "real option"
  r_llm_confidence :: "real option"
  r_extracted_utc :: int

record PostRow =
  row_post :: RedditPost
  fetched_utc :: int

record Storage =
  posts_tbl :: "PostRow list"
  ideas_tbl :: "IdeaRow list"
  run_logs :: "RunLog list"

text \<open>\<open>",".join(tags)\<close> and \<open>s.split(",")\<close>.\<close>

fun py_join_comma :: "string list \<Rightarrow> string" where
  "py_join_comma [] = []"
| "py_join_comma [t] = t"
| "py_join_comma (t # u # ts) = t @ CHR '','' # py_join_comma (u # ts)"

fun split_comma :: "string \<Rightarrow> string \<Rightarrow> string list" where
  "split_comma cur [] = [rev cur]"
| "split_comma cur (c # cs) =
     (if c = CHR '','' then rev cur # split_comma [] cs else split_comma (c # cur) cs)"

definition py_split_comma :: "string \<Rightarrow> string list" where
  "py_split_comma s = split_comma [] s"

fun upsert_post_row :: "PostRow \<Rightarrow> PostRow list \<Rightarrow> PostRow list" where
  "upsert_post_row r [] = [r]"
| "upsert_post_row r (x # xs) =
     (if post_id (row_post x) = post_id (row_post r) then r # xs
      else x # upsert_post_row r xs)"

definition post_fits :: "RedditPost \<Rightarrow> int \<Rightarrow> bool" where
  "post_fits post fetched =
     (fits_int64 (created_utc post) \<and> fits_int64 (num_comments post)
      \<and> fits_int64 (upvotes post) \<and> fits_int64 fetched)"

definition upsert_posts :: "RedditPost list \<Rightarrow> int \<Rightarrow> Storage \<Rightarrow> exn + Storage" where
  "upsert_posts posts fetched db =
     (if posts = [] then Inr db
      else if \<not> list_all (\<lambda>post. post_fits post fetched) posts then Inl overflow_error
      else Inr (db\<lparr>posts_tbl :=
             fold (\<lambda>post tbl. upsert_post_row \<lparr>row_post = post, fetched_utc = fetched\<rparr> tbl)
               posts (posts_tbl db)\<rparr>))"

definition row_of_idea :: "IdeaCandidate \<Rightarrow> int \<Rightarrow> IdeaRow" where
  "row_of_idea idea extracted =
     \<lparr> r_post_id = idea_post_id idea,
       r_subreddit = idea_subreddit idea,
       r_title = idea_title idea,
       r_problem_summary = problem_summary idea,
       r_solution_hint = solution_hint idea,
       r_relevance_score = relevance_score idea,
       r_reason_tags = py_join_comma (reason_tags idea),
       r_created_utc = idea_created_utc idea,
       r_permalink = idea_permalink idea,
       r_url = idea_url idea,
       r_author = idea_author idea,
       r_num_comments = idea_num_comments idea,
       r_upvotes = idea_upvotes idea,
       r_llm_profit_score = llm_profit_score idea,
       r_llm_confidence = llm_confidence idea,
       r_extracted_utc = extracted \<rparr>"

definition idea_of_row :: "IdeaRow \<Rightarrow> IdeaCandidate" where
  "idea_of_row row =
     \<lparr> idea_post_id = r_post_id row,
       idea_subreddit = r_subreddit row,
       idea_title = r_title row,
       problem_summary = r_problem_summary row,
       solution_hint = r_solution_hint row,
       relevance_score = r_relevance_score row,
       reason_tags = filter (\<lambda>tag. tag \<noteq> []) (py_split_comma (r_reason_tags row)),
       idea_created_utc = r_created_utc row,
       idea_permalink = r_permalink row,
       idea_url = r_url row,
       idea_author = r_author row,
       idea_num_comments = r_num_comments row,
       idea_upvotes = r_upvotes row,
       llm_profit_score = r_llm_profit_score row,
       llm_confidence = r_llm_confidence row \<rparr>"

fun upsert_idea_row :: "IdeaRow \<Rightarrow> IdeaRow list \<Rightarrow> IdeaRow list" where
  "upsert_idea_row r [] = [r]"
| "upsert_idea_row r (x # xs) =
     (if r_post_id x = r_post_id r then r # xs else x # upsert_idea_row r xs)"

definition idea_fits :: "IdeaCandidate \<Rightarrow> int \<Rightarrow> bool" where
  "idea_fits idea extracted =
     (fits_int64 (idea_created_utc idea) \<and> fits_int64 (idea_num_comments idea)
      \<and> fits_int64 (idea_upvotes idea) \<and> fits_int64 extracted)"

definition upsert_ideas :: "IdeaCandidate list \<Rightarrow> int \<Rightarrow> Storage \<Rightarrow> exn + Storage" where
  "upsert_ideas ideas extracted db =
     (if ideas = [] then Inr db
      else if \<not> list_all (\<lambda>idea. idea_fits idea extracted) ideas then Inl overflow_error
      else Inr (db\<lparr>ideas_tbl :=
             fold (\<lambda>idea tbl. upsert_idea_row (row_of_idea idea extracted) tbl) ideas
               (ideas_tbl db)\<rparr>))"

definition get_ideas_since :: "int \<Rightarrow> Storage \<Rightarrow> IdeaCandidate list" where
  "get_ideas_since created_utc_floor db =
     map idea_of_row
       (sort_key (\<lambda>row. (- r_relevance_score row, - r_created_utc row))
          (filter (\<lambda>row. created_utc_floor \<le> r_created_utc row) (ideas_tbl db)))"

text \<open>\<open>AUTOINCREMENT\<close>: one more than the largest row id; rows are never deleted.\<close>

definition new_run_id :: "RunLog list \<Rightarrow> int" where
  "new_run_id logs = 1 + fold max (map run_id logs) 0"

definition start_run :: "string \<Rightarrow> string \<Rightarrow> int \<Rightarrow> Storage \<Rightarrow> int \<times> Storage" where
  "start_run p day started db =
     (let rid = new_run_id (run_logs db)
      in (rid,
          db\<lparr>run_logs := run_logs db @
             [\<lparr> run_id = rid, period = p, run_day_utc = day, run_started_utc = started,
                run_finished_utc = None, status = ''started'', fetched_posts = 0,
                extracted_ideas = 0, window_ideas = 0, email_sent = False,
                message = [] \<rparr>]\<rparr>))"

definition finish_run ::
  "int \<Rightarrow> string \<Rightarrow> int \<Rightarrow> int \<Rightarrow> int \<Rightarrow> int \<Rightarrow> bool \<Rightarrow> string \<Rightarrow> Storage \<Rightarrow> Storage" where
  "finish_run rid st finished n_fetched n_extracted n_window sent msg db =
     db\<lparr>run_logs :=
          map (\<lambda>r. if run_id r = rid
                   then r\<lparr> run_finished_utc := Some finished, status := st,
                           fetched_posts := n_fetched, extracted_ideas := n_extracted,
                           window_ideas := n_window, email_sent := sent, message := msg \<rparr>
                   else r)
            (run_logs db)\<rparr>"

definition has_successful_run_on_day :: "string \<Rightarrow> string \<Rightarrow> Storage \<Rightarrow> bool" where
  "has_successful_run_on_day p day db =
     list_ex (\<lambda>r. period r = p \<and> run_day_utc r = day \<and> status r = ''success'') (run_logs db)"

text \<open>\<open>ORDER BY run_finished_utc DESC, run_started_utc DESC\<close>; \<open>NULL\<close> sorts below
  every number.\<close>

fun null_less :: "int option \<Rightarrow> int option \<Rightarrow> bool" where
  "null_less None (Some y) = True"
| "null_less (Some x) (Some y) = (x < y)"
| "null_less a None = False"

definition sorts_before :: "RunLog \<Rightarrow> RunLog \<Rightarrow> bool" where
  "sorts_before a b =
     (null_less (run_finished_utc b) (run_finished_utc a)
      \<or> (run_finished_utc a = run_finished_utc b \<and> run_started_utc b < run_started_utc a))"

fun first_in_order :: "RunLog list \<Rightarrow> RunLog option" where
  "first_in_order [] = None"
| "first_in_order (r # rs) =
     (case first_in_order rs of
        None \<Rightarrow> Some r
      | Some b \<Rightarrow> if sorts_before b r then Some b else Some r)"

definition get_latest_successful_run :: "string \<Rightarrow> Storage \<Rightarrow> RunLog option" where
  "get_latest_successful_run p db =
     (case first_in_order (filter (\<lambda>r. period r = p \<and> status r = ''success'') (run_logs db)) of
        None \<Rightarrow> None
      | Some row \<Rightarrow>
          Some (row\<lparr>run_finished_utc :=
                  (case run_finished_utc row of
                     None \<Rightarrow> None
                   | Some v \<Rightarrow> if v \<noteq> 0 then Some v else None)\<rparr>))"

section \<open>llm_assessor.py\<close>

record GeminiAssessment =
  profit_score :: real
  confidence :: real
  summary :: string
  monetization_hint :: string
  assessment_tags :: "string list"

text \<open>
  What one HTTP attempt yields. A body that was read and decoded is classified by what
  \<open>_extract_response_text\<close> and \<open>_safe_parse_json\<close> find in it: no text, text that
  holds no JSON object, or an object, of which the five keys read by \<open>assess\<close> are kept
  (numbers as \<open>float\<close> converts them, \<open>None\<close> where it raises; strings as \<open>str\<close>
  gives them; the tags \<open>None\<close> when the value is not a list).
\<close>

record ParsedReply =
  raw_profit_score :: "real option"
  raw_confidence :: "real option"
  raw_summary :: string
  raw_monetization_hint :: string
  raw_reason_tags :: "string list option"

datatype reply_body = EmptyText | NotAnObject | Object ParsedReply

datatype net_outcome =
    NetOk reply_body
  | NetHTTPError
  | NetURLError
  | NetTimeoutError
  | NetJSONDecodeError
  | NetOtherError exn

definition clamp_float :: "real option \<Rightarrow> real \<Rightarrow> real \<Rightarrow> real \<Rightarrow> real" where
  "clamp_float val minimum maximum fallback =
     (case val of None \<Rightarrow> fallback | Some parsed \<Rightarrow> max (min parsed maximum) minimum)"

definition is_tag_char :: "char \<Rightarrow> bool" where
  "is_tag_char c =
     (let n = (of_char c :: nat)
      in (97 \<le> n \<and> n \<le> 122) \<or> (48 \<le> n \<and> n \<le> 57) \<or> c = CHR ''_'')"

definition normalize_tag :: "string \<Rightarrow> string" where
  "normalize_tag item =
     filter is_tag_char
       (map (\<lambda>c. if c = CHR '' '' then CHR ''_'' else c) (py_lower (py_strip item)))"

definition normalize_reason_tags :: "string list option \<Rightarrow> string list" where
  "normalize_reason_tags val =
     (case val of
        None \<Rightarrow> []
      | Some items \<Rightarrow>
          py_sorted_set
            (concat (map (\<lambda>item. let tag = normalize_tag item
                                  in if tag \<noteq> [] then [''llm_'' @ take 24 tag] else [])
                       (take 3 items))))"

text \<open>
  The retry loop of \<open>_generate_content\<close>: \<open>net j\<close> is what attempt number \<open>j\<close> yields.
  The four caught errors lead to the next attempt; anything else raised leaves the loop.
\<close>

fun attempt_loop :: "(nat \<Rightarrow> net_outcome) \<Rightarrow> nat \<Rightarrow> nat \<Rightarrow> bool \<Rightarrow> exn + reply_body" where
  "attempt_loop net 0 j failed =
     Inl (Exn ''RuntimeError''
            (if failed then ''Gemini request failed.''
             else ''Gemini request failed with unknown error.''))"
| "attempt_loop net (Suc n) j failed =
     (case net j of
        NetOk body \<Rightarrow> Inr body
      | NetOtherError e \<Rightarrow> Inl e
      | _ \<Rightarrow> attempt_loop net n (Suc j) True)"

definition generate_content :: "(nat \<Rightarrow> net_outcome) \<Rightarrow> int \<Rightarrow> exn + reply_body" where
  "generate_content net max_retries = attempt_loop net (nat max_retries) 0 False"

text \<open>
  An assessor answers the call made for the candidate at a given position of the target
  list: it raises, returns \<open>None\<close>, or returns an assessment.
\<close>

type_synonym assessor = "nat \<Rightarrow> RedditPost \<Rightarrow> IdeaCandidate \<Rightarrow> exn + GeminiAssessment option"

definition gemini_assess :: "(nat \<Rightarrow> nat \<Rightarrow> net_outcome) \<Rightarrow> int \<Rightarrow> assessor" where
  "gemini_assess net max_retries k post idea =
     (case generate_content (net k) max_retries of
        Inl e \<Rightarrow> Inl e
      | Inr EmptyText \<Rightarrow> Inr None
      | Inr NotAnObject \<Rightarrow> Inr None
      | Inr (Object parsed) \<Rightarrow>
          Inr (Some
            \<lparr> profit_score = clamp_float (raw_profit_score parsed) 0.0 100.0 50.0,
              confidence = clamp_float (raw_confidence parsed) 0.0 1.0 0.5,
              summary = take 240 (py_strip (raw_summary parsed)),
              monetization_hint = take 220 (py_strip (raw_monetization_hint parsed)),
              assessment_tags = normalize_reason_tags (raw_reason_tags parsed) \<rparr>))"

text \<open>The body of the loop of \<open>enrich_ideas_with_gemini\<close> after a valid assessment.\<close>

definition merge_assessment :: "IdeaCandidate \<Rightarrow> GeminiAssessment \<Rightarrow> IdeaCandidate" where
  "merge_assessment idea assessment =
     idea\<lparr> problem_summary :=
             (if summary assessment \<noteq> [] then summary assessment else problem_summary idea),
           solution_hint :=
             (if monetization_hint assessment \<noteq> [] then monetization_hint assessment
              else solution_hint idea),
           llm_profit_score := Some (py_round 2 (profit_score assessment)),
           llm_confidence := Some (py_round 3 (confidence assessment)),
           relevance_score :=
             py_round 3 (relevance_score idea * 0.35 + (profit_score assessment / 10.0) * 0.65),
           reason_tags :=
             py_sorted_set (reason_tags idea @ [''llm_assessed''] @ assessment_tags assessment) \<rparr>"

text \<open>The dict comprehension \<open>{post.post_id: post for post in posts}\<close>: the last wins.\<close>

definition post_by_id :: "RedditPost list \<Rightarrow> string \<Rightarrow> RedditPost option" where
  "post_by_id posts = map_of (rev (map (\<lambda>post. (post_id post, post)) posts))"

text \<open>
  The loop over the target ideas. It yields the exception that ended it, if any, the
  target ideas as the loop left them, and the calls made to the assessor.
\<close>

fun enrich_loop ::
  "assessor \<Rightarrow> (string \<Rightarrow> RedditPost option) \<Rightarrow> nat \<Rightarrow> IdeaCandidate list
   \<Rightarrow> exn option \<times> IdeaCandidate list \<times> (RedditPost \<times> IdeaCandidate) list" where
  "enrich_loop assess posts_of k [] = (None, [], [])"
| "enrich_loop assess posts_of k (idea # rest) =
     (case posts_of (idea_post_id idea) of
        None \<Rightarrow>
          (case enrich_loop assess posts_of (Suc k) rest of
             (e, rest', calls) \<Rightarrow> (e, idea # rest', calls))
      | Some post \<Rightarrow>
          (case assess k post idea of
             Inl exc \<Rightarrow> (Some exc, idea # rest, [(post, idea)])
           | Inr None \<Rightarrow>
               (case enrich_loop assess posts_of (Suc k) rest of
                  (e, rest', calls) \<Rightarrow> (e, idea # rest', (post, idea) # calls))
           | Inr (Some assessment) \<Rightarrow>
               (case enrich_loop assess posts_of (Suc k) rest of
                  (e, rest', calls) \<Rightarrow>
                    (e, merge_assessment idea assessment # rest', (post, idea) # calls))))"

text \<open>
  \<open>enrich_ideas_with_gemini\<close>. \<open>returned\<close> is the list returned or the exception raised,
  \<open>ideas_after\<close> the idea objects after the call, in the order of \<open>sorted_ideas\<close> before
  the last sort, and \<open>assess_calls\<close> the calls made to the assessor. When no assessor is
  passed, a \<open>GeminiAssessor\<close> with three attempts over the network \<open>net\<close> is used.
\<close>

record Enriched =
  returned :: "exn + IdeaCandidate list"
  ideas_after :: "IdeaCandidate list"
  assess_calls :: "(RedditPost \<times> IdeaCandidate) list"

definition enrich_ideas_with_gemini ::
  "(nat \<Rightarrow> nat \<Rightarrow> net_outcome) \<Rightarrow> IdeaCandidate list \<Rightarrow> RedditPost list \<Rightarrow> AppConfig
   \<Rightarrow> assessor option \<Rightarrow> Enriched" where
  "enrich_ideas_with_gemini net ideas posts config assessor =
     (case gemini config of
        None \<Rightarrow> \<lparr> returned = Inr ideas, ideas_after = ideas, assess_calls = [] \<rparr>
      | Some gemini_config \<Rightarrow>
          if ideas = [] \<or> \<not> enabled gemini_config
          then \<lparr> returned = Inr ideas, ideas_after = ideas, assess_calls = [] \<rparr>
          else
            (let sorted_ideas = py_sort_desc relevance_score ideas;
                 assess_limit = max (max_candidates gemini_config) 1;
                 target_ideas = take (nat assess_limit) sorted_ideas;
                 effective_assessor =
                   (case assessor of Some a \<Rightarrow> a | None \<Rightarrow> gemini_assess net 3)
             in case enrich_loop effective_assessor (post_by_id posts) 0 target_ideas of
                  (e, targets', calls) \<Rightarrow>
                    (let after = targets' @ drop (nat assess_limit) sorted_ideas
                     in \<lparr> returned =
                            (case e of
                               Some exc \<Rightarrow> Inl exc
                             | None \<Rightarrow> Inr (py_sort_desc relevance_score after)),
                          ideas_after = after,
                          assess_calls = calls \<rparr>)))"

section \<open>pipeline.py\<close>

text \<open>
  A \<open>datetime\<close> is an instant, in whole seconds since the epoch (what
  \<open>int(d.timestamp())\<close> reads), and the offset of its timezone from UTC in seconds
  (for a naive \<open>datetime\<close>, the offset of the local zone). \<open>strftime\<close> formats
  the fields of the datetime in its own zone: those of the instant plus the offset.
\<close>

record datetime =
  timestamp :: int
  utcoffset :: int

fun py_str_nat :: "nat \<Rightarrow> string" where
  "py_str_nat n =
     (if n < 10 then [char_of (48 + n)]
      else py_str_nat (n div 10) @ [char_of (48 + n mod 10)])"

text \<open>Year, month and day of a count of days since 1970-01-01 (Gregorian calendar).\<close>

definition civil_from_days :: "int \<Rightarrow> int \<times> int \<times> int" where
  "civil_from_days days =
     (let z = days + 719468;
          era = z div 146097;
          doe = z mod 146097;
          yoe = (doe - doe div 1460 + doe div 36524 - doe div 146096) div 365;
          y = yoe + era * 400;
          doy = doe - (365 * yoe + yoe div 4 - yoe div 100);
          mp = (5 * doy + 2) div 153;
          d = doy - (153 * mp + 2) div 5 + 1;
          m = (if mp < 10 then mp + 3 else mp - 9)
      in (if m \<le> 2 then y + 1 else y, m, d))"

definition pad2 :: "int \<Rightarrow> string" where
  "pad2 n = (if n < 10 then ''0'' @ py_str_nat (nat n) else py_str_nat (nat n))"

text \<open>\<open>d.strftime("%Y-%m-%d")\<close> and \<open>d.strftime("%Y%m%d_%H%M%S")\<close>.\<close>

definition ymd :: "datetime \<Rightarrow> string" where
  "ymd d =
     (case civil_from_days ((timestamp d + utcoffset d) div 86400) of
        (y, m, dd) \<Rightarrow> py_str_nat (nat y) @ ''-'' @ pad2 m @ ''-'' @ pad2 dd)"

definition stamp :: "datetime \<Rightarrow> string" where
  "stamp d =
     (let local_seconds = timestamp d + utcoffset d;
          secs = local_seconds mod 86400
      in case civil_from_days (local_seconds div 86400) of
           (y, m, dd) \<Rightarrow>
             py_str_nat (nat y) @ pad2 m @ pad2 dd @ ''_'' @ pad2 (secs div 3600)
               @ pad2 (secs mod 3600 div 60) @ pad2 (secs mod 60))"

record RunResult =
  res_status :: string
  res_fetched_posts :: int
  res_extracted_ideas :: int
  res_window_ideas :: int
  started_utc :: int
  finished_utc :: int
  csv_path :: "string option"
  report_path :: "string option"
  res_email_sent :: bool
  res_message :: string

text \<open>\<open>send(subject, body, report_path)\<close> returns (\<open>None\<close>) or raises.\<close>

type_synonym notifier = "string \<Rightarrow> string \<Rightarrow> string \<Rightarrow> exn option"

text \<open>
  The storage calls that may fail for a reason of the database itself (a locked or
  unwritable file); \<open>FinishRun st\<close> is the call of \<open>finish_run\<close> with status \<open>st\<close>.
  The insert and the reads that precede the \<open>try\<close> statement are taken to succeed.
\<close>

datatype storage_step = UpsertPosts | UpsertIdeas | GetIdeasSince | FinishRun string

text \<open>
  The collaborators of one call of \<open>run_once\<close> and what they answer: the \<open>now\<close>
  argument and the two readings of the clock (\<open>datetime.now(tz=UTC)\<close>, in seconds), the
  post source (its answer to the call of a given number), the \<open>notifier\<close> argument and
  the notifier built from the configuration, an exception raised by a storage step, the
  report functions, and the formatting of a timestamp.
\<close>

record Env =
  now_arg :: "datetime option"
  clock_start :: int
  clock_finish :: int
  fetch_new_posts_since :: "nat \<Rightarrow> string \<Rightarrow> int \<Rightarrow> int \<Rightarrow> exn + RedditPost list"
  notifier_arg :: "notifier option"
  channels :: notifier
  storage_error :: "storage_step \<Rightarrow> exn option"
  export_ideas_csv :: "IdeaCandidate list \<Rightarrow> string \<Rightarrow> exn option"
  build_markdown_report :: "IdeaCandidate list \<Rightarrow> string \<Rightarrow> datetime \<Rightarrow> int \<Rightarrow> exn + string"
  write_text_report :: "string \<Rightarrow> string \<Rightarrow> exn option"
  isoformat_utc :: "int \<Rightarrow> exn + string"
  strftime_utc :: "int \<Rightarrow> exn + string"

text \<open>The store and the calls made to the collaborators and to \<open>finish_run\<close>.\<close>

record World =
  storage :: Storage
  fetch_calls :: "(string \<times> int \<times> int) list"
  export_calls :: "(IdeaCandidate list \<times> string) list"
  render_calls :: "IdeaCandidate list list"
  write_calls :: "(string \<times> string) list"
  send_calls :: "(string \<times> string \<times> string) list"
  finish_calls :: "(int \<times> string) list"

text \<open>\<open>str.title()\<close> on ASCII text; the period is one of two ASCII literals.\<close>

definition py_upper_char :: "char \<Rightarrow> char" where
  "py_upper_char c =
     (let n = (of_char c :: nat) in if 97 \<le> n \<and> n \<le> 122 then char_of (n - 32) else c)"

fun title_run :: "bool \<Rightarrow> string \<Rightarrow> string" where
  "title_run in_word [] = []"
| "title_run in_word (c # cs) =
     (if is_ascii_alpha c
      then (if in_word then py_lower_char c else py_upper_char c) # title_run True cs
      else c # title_run False cs)"

definition py_title :: "string \<Rightarrow> string" where
  "py_title s = title_run False s"

definition runtime_of :: "Env \<Rightarrow> datetime" where
  "runtime_of env =
     (case now_arg env of
        Some d \<Rightarrow> d
      | None \<Rightarrow> \<lparr> timestamp = clock_start env, utcoffset = 0 \<rparr>)"

definition finish_time :: "Env \<Rightarrow> int" where
  "finish_time env =
     (case now_arg env of Some d \<Rightarrow> timestamp d | None \<Rightarrow> clock_finish env)"

definition build_notifier :: "Env \<Rightarrow> AppConfig \<Rightarrow> notifier option" where
  "build_notifier env config =
     (if smtp config = None \<and> telegram config = None then None else Some (channels env))"

text \<open>Lines 43, 44 and 77 to 82: the floor of the fetch.\<close>

definition lookback_floor_of :: "AppConfig \<Rightarrow> int \<Rightarrow> RunLog option \<Rightarrow> int" where
  "lookback_floor_of config started latest_success =
     (let lookback_seconds = max (lookback_hours config) 1 * 60 * 60;
          default_lookback_floor = started - lookback_seconds
      in case latest_success of
           None \<Rightarrow> default_lookback_floor
         | Some run \<Rightarrow>
             (case run_finished_utc run of
                None \<Rightarrow> default_lookback_floor
              | Some finished \<Rightarrow>
                  if started - finished \<le> lookback_seconds then finished
                  else default_lookback_floor))"

text \<open>Lines 88 to 95: one call of the post source for each subreddit.\<close>

fun fetch_loop ::
  "Env \<Rightarrow> AppConfig \<Rightarrow> int \<Rightarrow> string list \<Rightarrow> RedditPost list \<Rightarrow> World
   \<Rightarrow> (exn + RedditPost list) \<times> World" where
  "fetch_loop env config lookback_floor [] posts w = (Inr posts, w)"
| "fetch_loop env config lookback_floor (sub # subs) posts w =
     (let w1 = w\<lparr>fetch_calls := fetch_calls w @
                 [(sub, lookback_floor, max_posts_per_subreddit config)]\<rparr>
      in case fetch_new_posts_since env (length (fetch_calls w)) sub lookback_floor
                (max_posts_per_subreddit config) of
           Inl exc \<Rightarrow> (Inl exc, w1)
         | Inr fetched \<Rightarrow> fetch_loop env config lookback_floor subs (posts @ fetched) w1)"

text \<open>Lines 97 to 101: the posts are stored, the ideas extracted and stored, and the
  reporting window read.\<close>

definition persist_and_extract ::
  "Env \<Rightarrow> AppConfig \<Rightarrow> int \<Rightarrow> int \<Rightarrow> RedditPost list \<Rightarrow> World
   \<Rightarrow> (exn + IdeaCandidate list \<times> IdeaCandidate list) \<times> World" where
  "persist_and_extract env config lookback_floor started posts w =
     (case storage_error env UpsertPosts of
        Some exc \<Rightarrow> (Inl exc, w)
      | None \<Rightarrow>
     (case upsert_posts posts started (storage w) of
        Inl exc \<Rightarrow> (Inl exc, w)
      | Inr db1 \<Rightarrow>
          (let w1 = w\<lparr>storage := db1\<rparr>;
               ideas = extract_ideas posts config
           in case storage_error env UpsertIdeas of
                Some exc \<Rightarrow> (Inl exc, w1)
              | None \<Rightarrow>
             (case upsert_ideas ideas started db1 of
                Inl exc \<Rightarrow> (Inl exc, w1)
              | Inr db2 \<Rightarrow>
                  (let w2 = w1\<lparr>storage := db2\<rparr>
                   in case storage_error env GetIdeasSince of
                        Some exc \<Rightarrow> (Inl exc, w2)
                      | None \<Rightarrow> (Inr (ideas, get_ideas_since lookback_floor db2), w2))))))"

text \<open>Lines 102 to 110: the CSV export and the Markdown report. It yields the two paths
  and the name of the report file.\<close>

definition write_reports ::
  "Env \<Rightarrow> AppConfig \<Rightarrow> string \<Rightarrow> datetime \<Rightarrow> IdeaCandidate list \<Rightarrow> World
   \<Rightarrow> (exn + string \<times> string \<times> string) \<times> World" where
  "write_reports env config p runtime window w =
     (let date_stamp = stamp runtime;
          csv = output_dir config @ ''/'' @ ''ideas_'' @ p @ ''_'' @ date_stamp @ ''.csv'';
          report_name = ''report_'' @ p @ ''_'' @ date_stamp @ ''.md'';
          report = output_dir config @ ''/'' @ report_name;
          w1 = w\<lparr>export_calls := export_calls w @ [(window, csv)]\<rparr>
      in case export_ideas_csv env window csv of
           Some exc \<Rightarrow> (Inl exc, w1)
         | None \<Rightarrow>
             (let w2 = w1\<lparr>render_calls := render_calls w1 @ [window]\<rparr>
              in case build_markdown_report env window p runtime (report_top_n config) of
                   Inl exc \<Rightarrow> (Inl exc, w2)
                 | Inr report_text \<Rightarrow>
                     (let w3 = w2\<lparr>write_calls := write_calls w2 @ [(report_text, report)]\<rparr>
                      in case write_text_report env report_text report of
                           Some exc \<Rightarrow> (Inl exc, w3)
                         | None \<Rightarrow> (Inr (csv, report, report_name), w3))))"

text \<open>Lines 112 to 125: the notification. It yields \<open>email_sent\<close>.\<close>

definition notify ::
  "Env \<Rightarrow> AppConfig \<Rightarrow> string \<Rightarrow> int \<Rightarrow> nat \<Rightarrow> nat \<Rightarrow> string \<Rightarrow> string \<Rightarrow> World
   \<Rightarrow> (exn + bool) \<times> World" where
  "notify env config p lookback_floor n_posts n_ideas report report_name w =
     (case (case notifier_arg env of Some n \<Rightarrow> Some n | None \<Rightarrow> build_notifier env config) of
        None \<Rightarrow> (Inr False, w)
      | Some send \<Rightarrow>
          (case isoformat_utc env lookback_floor of
             Inl exc \<Rightarrow> (Inl exc, w)
           | Inr since \<Rightarrow>
               (let body = ''Collected ideas since '' @ since @ ''.'' @ [CHR 0x0A]
                      @ ''Posts checked: '' @ py_str_nat n_posts @ ''.'' @ [CHR 0x0A]
                      @ ''Newly extracted in this run: '' @ py_str_nat n_ideas @ ''.''
                      @ [CHR 0x0A] @ ''Report: '' @ report_name;
                    subject = ''Reddit Ideas '' @ py_title p @ '' Report'';
                    w1 = w\<lparr>send_calls := send_calls w @ [(subject, body, report)]\<rparr>
                in case send subject body report of
                     Some exc \<Rightarrow> (Inl exc, w1)
                   | None \<Rightarrow> (Inr True, w1))))"

text \<open>Lines 87 to 153: the body of the \<open>try\<close> statement.\<close>

definition try_block ::
  "Env \<Rightarrow> AppConfig \<Rightarrow> string \<Rightarrow> datetime \<Rightarrow> int \<Rightarrow> int \<Rightarrow> int \<Rightarrow> World
   \<Rightarrow> (exn + RunResult) \<times> World" where
  "try_block env config p runtime rid lookback_floor started w =
     (case fetch_loop env config lookback_floor (subreddits config) [] w of
        (Inl exc, w1) \<Rightarrow> (Inl exc, w1)
      | (Inr posts, w1) \<Rightarrow>
     (case persist_and_extract env config lookback_floor started posts w1 of
        (Inl exc, w2) \<Rightarrow> (Inl exc, w2)
      | (Inr (ideas, window), w2) \<Rightarrow>
     (case write_reports env config p runtime window w2 of
        (Inl exc, w3) \<Rightarrow> (Inl exc, w3)
      | (Inr (csv, report, report_name), w3) \<Rightarrow>
     (case notify env config p lookback_floor (length posts) (length ideas) report
             report_name w3 of
        (Inl exc, w4) \<Rightarrow> (Inl exc, w4)
      | (Inr sent, w4) \<Rightarrow>
     (case strftime_utc env lookback_floor of
        Inl exc \<Rightarrow> (Inl exc, w4)
      | Inr since \<Rightarrow>
     (case storage_error env (FinishRun ''success'') of
        Some exc \<Rightarrow> (Inl exc, w4)
      | None \<Rightarrow>
          (let finished = finish_time env;
               msg = ''Success. Lookback started at '' @ since
           in (Inr \<lparr> res_status = ''success'',
                     res_fetched_posts = int (length posts),
                     res_extracted_ideas = int (length ideas),
                     res_window_ideas = int (length window),
                     started_utc = started, finished_utc = finished,
                     csv_path = Some csv, report_path = Some report,
                     res_email_sent = sent, res_message = msg \<rparr>,
               w4\<lparr>storage := finish_run rid ''success'' finished (int (length posts))
                           (int (length ideas)) (int (length window)) sent msg (storage w4),
                   finish_calls := finish_calls w4 @ [(rid, ''success'')]\<rparr>))))))))"

text \<open>
  \<open>run_once\<close>. The handler of the \<open>try\<close> statement catches instances of
  \<open>Exception\<close> only; when its own \<open>finish_run\<close> raises, that exception leaves
  \<open>run_once\<close> in place of the one caught.
\<close>

definition run_once :: "Env \<Rightarrow> AppConfig \<Rightarrow> string \<Rightarrow> World \<Rightarrow> (exn + RunResult) \<times> World" where
  "run_once env config period_arg w =
     (let p = py_strip (py_lower period_arg)
      in if p \<noteq> ''daily'' \<and> p \<noteq> ''weekly''
         then (Inl (Exn ''ValueError''
                  (''period must be either '' @ [CHR 0x27] @ ''daily'' @ [CHR 0x27]
                   @ '' or '' @ [CHR 0x27] @ ''weekly'' @ [CHR 0x27])), w)
         else
           (let runtime = runtime_of env;
                started = timestamp runtime;
                day = ymd runtime
            in case start_run p day started (storage w) of
                 (rid, db1) \<Rightarrow>
                   if has_successful_run_on_day p day db1
                   then
                     (let finished = finish_time env;
                          msg = ''Skipped duplicate '' @ p @ '' run for UTC day '' @ day @ ''.''
                      in case storage_error env (FinishRun ''skipped_same_day'') of
                           Some exc \<Rightarrow> (Inl exc, w\<lparr>storage := db1\<rparr>)
                         | None \<Rightarrow>
                             (Inr \<lparr> res_status = ''skipped_same_day'', res_fetched_posts = 0,
                                    res_extracted_ideas = 0, res_window_ideas = 0,
                                    started_utc = started, finished_utc = finished,
                                    csv_path = None, report_path = None,
                                    res_email_sent = False, res_message = msg \<rparr>,
                              w\<lparr>storage := finish_run rid ''skipped_same_day'' finished 0 0 0
                                              False msg db1,
                                finish_calls := finish_calls w
                                   @ [(rid, ''skipped_same_day'')]\<rparr>))
                   else
                     (let lookback_floor =
                            lookback_floor_of config started (get_latest_successful_run p db1)
                      in case try_block env config p runtime rid lookback_floor started
                                (w\<lparr>storage := db1\<rparr>) of
                           (Inr result, w2) \<Rightarrow> (Inr result, w2)
                         | (Inl exc, w2) \<Rightarrow>
                             if \<not> is_exception exc then (Inl exc, w2)
                             else
                               (let finished = finish_time env;
                                    msg = exn_type exc @ '': '' @ exn_msg exc
                                in case storage_error env (FinishRun ''failed'') of
                                     Some exc2 \<Rightarrow> (Inl exc2, w2)
                                   | None \<Rightarrow>
                                       (Inl exc,
                                        w2\<lparr>storage := finish_run rid ''failed'' finished 0 0 0
                                                    False msg (storage w2),
                                           finish_calls := finish_calls w2
                                              @ [(rid, ''failed'')]\<rparr>)))))"

section \<open>The specification's wording of the problem summary\<close>

text \<open>
  The summary as the specification words it: the first sentence that contains a pain
  signal, else the first non-empty sentence, else the title, cut to 220 characters.
  Sentences are compared stripped and without regard to case, as the scorer does.
\<close>

definition spec_problem_summary :: "RedditPost \<Rightarrow> string" where
  "spec_problem_summary post =
     (let sentences = map py_strip (re_split_sentences (selftext post))
      in case find (\<lambda>s. contains_any (py_lower s) PAIN_SIGNALS) sentences of
           Some s \<Rightarrow> take 220 s
         | None \<Rightarrow>
             (case find (\<lambda>s. s \<noteq> []) sentences of
                Some s \<Rightarrow> take 220 s
              | None \<Rightarrow> take 220 (title post)))"

text \<open>
  The same with the fallback the code has: the first piece of the split of the stripped
  body when that piece is not blank, else the title.
\<close>

definition first_piece_problem_summary :: "RedditPost \<Rightarrow> string" where
  "first_piece_problem_summary post =
     (let sentences = map py_strip (re_split_sentences (py_strip (selftext post)))
      in case find (\<lambda>s. contains_any (py_lower s) PAIN_SIGNALS) sentences of
           Some s \<Rightarrow> take 220 s
         | None \<Rightarrow>
             (case sentences of
                [] \<Rightarrow> take 220 (title post)
              | s0 # _ \<Rightarrow> if s0 \<noteq> [] then take 220 s0 else take 220 (title post)))"

section \<open>Tags the store can hold\<close>

text \<open>A tag list survives the comma-joined column when no tag is empty or has a comma.\<close>

definition storable_tags :: "string list \<Rightarrow> bool" where
  "storable_tags tags = list_all (\<lambda>tag. tag \<noteq> [] \<and> CHR '','' \<notin> set tag) tags"

section \<open>The errors the retry loop catches\<close>

definition caught :: "net_outcome \<Rightarrow> bool" where
  "caught out =
     (out = NetHTTPError \<or> out = NetURLError \<or> out = NetTimeoutError
      \<or> out = NetJSONDecodeError)"

text \<open>
  What the loop of the merger leaves of the candidate at a position when the call made
  for it, if any, does not raise.
\<close>

definition assessed_idea ::
  "assessor \<Rightarrow> (string \<Rightarrow> RedditPost option) \<Rightarrow> nat \<Rightarrow> IdeaCandidate \<Rightarrow> IdeaCandidate" where
  "assessed_idea assess posts_of k idea =
     (case posts_of (idea_post_id idea) of
        None \<Rightarrow> idea
      | Some post \<Rightarrow>
          (case assess k post idea of
             Inr (Some assessment) \<Rightarrow> merge_assessment idea assessment
           | _ \<Rightarrow> idea))"

section \<open>The run row and the try statement as \<open>run_once\<close> runs it\<close>

text \<open>The row \<open>start_run\<close> inserts, and that row closed with zero counts.\<close>

definition started_row :: "int \<Rightarrow> string \<Rightarrow> string \<Rightarrow> int \<Rightarrow> RunLog" where
  "started_row rid p day started =
     \<lparr> run_id = rid, period = p, run_day_utc = day, run_started_utc = started,
       run_finished_utc = None, status = ''started'', fetched_posts = 0,
       extracted_ideas = 0, window_ideas = 0, email_sent = False, message = [] \<rparr>"

definition closed_row ::
  "int \<Rightarrow> string \<Rightarrow> string \<Rightarrow> int \<Rightarrow> int \<Rightarrow> string \<Rightarrow> string \<Rightarrow> RunLog" where
  "closed_row rid p day started finished st msg =
     \<lparr> run_id = rid, period = p, run_day_utc = day, run_started_utc = started,
       run_finished_utc = Some finished, status = st, fetched_posts = 0,
       extracted_ideas = 0, window_ideas = 0, email_sent = False, message = msg \<rparr>"

text \<open>
  The \<open>try\<close> block on the world that \<open>start_run\<close> leaves, with the run identifier
  and the floor that \<open>run_once\<close> computes before it.
\<close>

definition attempt :: "Env \<Rightarrow> AppConfig \<Rightarrow> string \<Rightarrow> World \<Rightarrow> (exn + RunResult) \<times> World" where
  "attempt env config p w =
     try_block env config p (runtime_of env) (new_run_id (run_logs (storage w)))
       (lookback_floor_of config (timestamp (runtime_of env))
          (get_latest_successful_run p (storage w)))
       (timestamp (runtime_of env))
       (w\<lparr>storage := snd (start_run p (ymd (runtime_of env)) (timestamp (runtime_of env))
                           (storage w))\<rparr>)"

section \<open>Example inputs\<close>

definition example_config :: AppConfig where
  "example_config =
     \<lparr> subreddits = [''s''], lookback_hours = 168, max_posts_per_subreddit = 10,
       min_score = 1, report_top_n = 10, data_dir = ''d'', output_dir = ''o'',
       user_agent = ''ua'', include_keywords = [''tool''], exclude_keywords = [''hiring''],
       smtp = None, telegram = None, gemini = None \<rparr>"

definition example_post :: "string \<Rightarrow> string \<Rightarrow> string \<Rightarrow> RedditPost" where
  "example_post i t b =
     \<lparr> post_id = i, subreddit = ''s'', title = t, selftext = b, permalink = ''l'',
       url = ''u'', author = ''a'', created_utc = 5, num_comments = 0, upvotes = 1,
       is_self = True \<rparr>"

definition example_posts :: "RedditPost list" where
  "example_posts =
     [example_post ''d'' ''cat'' ''w'', example_post ''a'' ''tool'' ''x'',
      example_post ''c'' ''slow tool?'' ''z'', example_post ''b'' ''a tool'' ''y'']"

definition example_idea :: "string \<Rightarrow> real \<Rightarrow> string list \<Rightarrow> IdeaCandidate" where
  "example_idea i score tags =
     \<lparr> idea_post_id = i, idea_subreddit = ''s'', idea_title = ''t'',
       problem_summary = ''old summary'', solution_hint = ''old hint'',
       relevance_score = score, reason_tags = tags, idea_created_utc = 5,
       idea_permalink = ''l'', idea_url = ''u'', idea_author = ''a'',
       idea_num_comments = 0, idea_upvotes = 1, llm_profit_score = None,
       llm_confidence = Some 0.74 \<rparr>"

definition empty_storage :: Storage where
  "empty_storage = \<lparr> posts_tbl = [], ideas_tbl = [], run_logs = [] \<rparr>"

definition example_gemini :: "int \<Rightarrow> GeminiConfig" where
  "example_gemini n =
     \<lparr> enabled = True, api_key = ''fake-key'', model = ''gemini-2.5-flash-lite'',
       temperature = 0.2, max_candidates = n, timeout_seconds = 20 \<rparr>"

definition llm_config :: "int \<Rightarrow> AppConfig" where
  "llm_config n = example_config\<lparr>gemini := Some (example_gemini n)\<rparr>"

definition llm_ideas :: "IdeaCandidate list" where
  "llm_ideas =
     [example_idea ''1'' 4.0 [''pain_point''], example_idea ''2'' 3.8 [''pain_point''],
      example_idea ''3'' 1.1 [''pain_point'']]"

definition llm_posts :: "RedditPost list" where
  "llm_posts =
     [example_post ''1'' ''Automate reporting'' ''Manual reporting is slow.'',
      example_post ''2'' ''Low signal item'' ''Some post text.'',
      example_post ''3'' ''Third item'' ''Manual work problem.'']"

definition fake_assessment :: "RedditPost \<Rightarrow> GeminiAssessment" where
  "fake_assessment post =
     \<lparr> profit_score = 82.0, confidence = 0.74,
       summary = take 240 (''LLM summary for '' @ title post),
       monetization_hint = ''Charge for automation as a monthly SaaS.'',
       assessment_tags = [''llm_real_pain'', ''llm_pays_signal''] \<rparr>"

definition fake_assessor :: assessor where
  "fake_assessor k post idea = Inr (Some (fake_assessment post))"

definition first_candidate_times_out :: "nat \<Rightarrow> nat \<Rightarrow> net_outcome" where
  "first_candidate_times_out k j =
     (if k = 0 then NetTimeoutError
      else NetOk (Object \<lparr> raw_profit_score = Some 82.0, raw_confidence = Some 0.74,
                           raw_summary = ''s'', raw_monetization_hint = ''h'',
                           raw_reason_tags = Some [''Real Pain''] \<rparr>))"

definition second_candidate_times_out :: "nat \<Rightarrow> nat \<Rightarrow> net_outcome" where
  "second_candidate_times_out k j =
     (if k = 1 then NetTimeoutError
      else NetOk (Object \<lparr> raw_profit_score = Some 82.0, raw_confidence = Some 0.74,
                           raw_summary = ''s'', raw_monetization_hint = ''h'',
                           raw_reason_tags = Some [''Real Pain''] \<rparr>))"

definition example_now :: datetime where
  "example_now = \<lparr> timestamp = 100000, utcoffset = 0 \<rparr>"

definition example_env :: "(exn + RedditPost list) \<Rightarrow> Env" where
  "example_env answer =
     \<lparr> now_arg = Some example_now, clock_start = 100000, clock_finish = 100000,
       fetch_new_posts_since = (\<lambda>k sub since n. answer),
       notifier_arg = None, channels = (\<lambda>subject body path. None),
       storage_error = (\<lambda>step. None),
       export_ideas_csv = (\<lambda>ideas path. None),
       build_markdown_report = (\<lambda>ideas p generated top_n. Inr ''report''),
       write_text_report = (\<lambda>content path. None),
       isoformat_utc = (\<lambda>t. Inr ''iso''),
       strftime_utc = (\<lambda>t. Inr ''utc'') \<rparr>"

text \<open>
  A run time given in the zone two hours east of UTC: 80000 seconds after the epoch,
  which is 22:13:20 on 1970-01-01 in UTC and 00:13:20 on 1970-01-02 in that zone.
\<close>

definition example_late_now :: datetime where
  "example_late_now = \<lparr> timestamp = 80000, utcoffset = 7200 \<rparr>"

definition example_env_at :: "datetime \<Rightarrow> (exn + RedditPost list) \<Rightarrow> Env" where
  "example_env_at now answer = (example_env answer)\<lparr>now_arg := Some now\<rparr>"

definition success_row :: "string \<Rightarrow> int \<Rightarrow> RunLog" where
  "success_row day finished =
     \<lparr> run_id = 1, period = ''daily'', run_day_utc = day, run_started_utc = finished,
       run_finished_utc = Some finished, status = ''success'', fetched_posts = 0,
       extracted_ideas = 0, window_ideas = 0, email_sent = False, message = ''ok'' \<rparr>"

definition example_world :: "RunLog list \<Rightarrow> World" where
  "example_world logs =
     \<lparr> storage = \<lparr> posts_tbl = [], ideas_tbl = [], run_logs = logs \<rparr>,
       fetch_calls = [], export_calls = [], render_calls = [], write_calls = [],
       send_calls = [], finish_calls = [] \<rparr>"

definition example_interrupt :: exn where
  "example_interrupt = BaseExn ''KeyboardInterrupt'' []"

definition example_failure :: exn where
  "example_failure = Exn ''RuntimeError'' ''Failed to fetch URL: u''"

definition example_extracted :: IdeaCandidate where
  "example_extracted =
     \<lparr> idea_post_id = ''a'', idea_subreddit = ''s'', idea_title = ''tool'',
       problem_summary = ''x'',
       solution_hint = ''Validate demand with a small automation tool and a narrow landing page.'',
       relevance_score = 1.35, reason_tags = [''keyword_match'', ''solution_possible''],
       idea_created_utc = 5, idea_permalink = ''l'', idea_url = ''u'', idea_author = ''a'',
       idea_num_comments = 0, idea_upvotes = 1, llm_profit_score = None,
       llm_confidence = None \<rparr>"

section \<open>Properties of the extractor\<close>

lemma no_pain_in_empty: "\<not> contains_any [] PAIN_SIGNALS"
  by (simp add: contains_any_def PAIN_SIGNALS_def)

lemma first_pain_sentence_find:
  "first_pain_sentence ss = find (\<lambda>s. contains_any (py_lower s) PAIN_SIGNALS) (map py_strip ss)"
  by (induction ss) (auto simp: Let_def no_pain_in_empty py_lower_def)

lemma py_strip_Nil: "py_strip [] = []"
  by (simp add: py_strip_def)

text \<open>
  Claim C8, as the code has it. \<open>derive_problem_summary\<close> returns the first stripped
  sentence of the stripped body (split on runs of full stop, exclamation mark, question
  mark and newline) whose lower-cased text contains a pain signal, cut to 220 characters;
  when there is none, it returns the first piece of that split, stripped, if it is not
  empty, and the title otherwise, cut to 220 characters.
\<close>

theorem derive_problem_summary_first_piece:
  "derive_problem_summary post = first_piece_problem_summary post"
proof (cases "py_strip (selftext post) = []")
  case True
  then show ?thesis
    by (simp add: derive_problem_summary_def first_piece_problem_summary_def
        re_split_sentences_def py_strip_Nil no_pain_in_empty py_lower_def)
next
  case False
  then show ?thesis
    by (simp add: derive_problem_summary_def first_piece_problem_summary_def Let_def
        first_pain_sentence_find split: option.splits list.splits)
qed

theorem derive_problem_summary_first_piece_witness:
  "derive_problem_summary (example_post ''a'' ''T'' ''Hi all. It is SLOW!'') = ''It is SLOW''"
  unfolding derive_problem_summary_first_piece by code_simp

text \<open>
  The claim as worded fails when the stripped body begins with a delimiter: the first
  piece of the split is then empty and the code falls back to the title, although a
  non-empty sentence follows.
\<close>

theorem derive_problem_summary_counterexample:
  "derive_problem_summary (example_post ''a'' ''T'' ''!hi'') = ''T''
   \<and> spec_problem_summary (example_post ''a'' ''T'' ''!hi'') = ''hi''"
  by code_simp

lemma extract_loop_map_filter:
  "extract_loop posts config = map (idea_of_post config) (filter (qualifies config) posts)"
  by (induction posts) (auto simp: idea_of_post_def qualifies_def split: prod.splits)

lemma py_sort_desc_mset: "mset (py_sort_desc k xs) = mset xs"
  by (simp add: py_sort_desc_def)

lemma py_sort_desc_sorted: "sorted_wrt (\<lambda>a b. k b \<le> k a) (py_sort_desc k xs)"
proof -
  have "sorted (map (\<lambda>x. - k x) (sort_key (\<lambda>x. - k x) xs))"
    by (rule sorted_sort_key)
  then show ?thesis
    by (simp add: py_sort_desc_def sorted_map)
qed

lemma py_sort_desc_stable:
  "filter (\<lambda>x. k x = v) (py_sort_desc k xs) = filter (\<lambda>x. k x = v) xs"
proof -
  have "filter (\<lambda>x. - k x = - v) (sort_key (\<lambda>x. - k x) xs) = filter (\<lambda>x. - k x = - v) xs"
    by (rule sort_key_stable)
  then show ?thesis
    by (simp add: py_sort_desc_def)
qed

lemma log10_one: "log10 1 = 0"
  by (simp add: log10_def)

lemmas score_eval =
  score_post_def py_lower_def py_lower_char_def keyword_hits_def contains_any_def
  PAIN_SIGNALS_def SOLUTION_SIGNALS_def MONETIZATION_SIGNALS_def tokenize_def log10_one
  is_word_start_def is_word_char_def is_ascii_alpha_def py_sorted_set_def example_post_def
  example_config_def Let_def

lemma score_example_a:
  "score_post (example_post ''a'' ''tool'' ''x'') example_config
     = (1.35, [''keyword_match'', ''solution_possible''])"
  by (simp add: score_eval)

lemma score_example_b:
  "score_post (example_post ''b'' ''a tool'' ''y'') example_config
     = (1.35, [''keyword_match'', ''solution_possible''])"
  by (simp add: score_eval)

lemma score_example_c:
  "score_post (example_post ''c'' ''slow tool?'' ''z'') example_config
     = (2.5, [''keyword_match'', ''pain_point'', ''question'', ''solution_possible''])"
  by (simp add: score_eval)

lemma score_example_d:
  "score_post (example_post ''d'' ''cat'' ''w'') example_config = (0, [''low_signal''])"
  by (simp add: score_eval)

lemma post_id_example: "post_id (example_post i t b) = i"
  by (simp add: example_post_def)

lemma min_score_example: "min_score example_config = 1"
  by (simp add: example_config_def)

text \<open>
  Claim C7. \<open>extract_ideas\<close> returns one idea for each post whose score is at least
  \<open>min_score\<close> and none for the others (as multisets), the result is in descending
  order of the relevance score, and ideas of equal relevance score keep the order of
  their posts in the input.
\<close>

theorem extract_ideas_filter_sorted:
  "mset (extract_ideas posts config)
     = mset (map (idea_of_post config) (filter (qualifies config) posts))
   \<and> sorted_wrt (\<lambda>a b. relevance_score b \<le> relevance_score a) (extract_ideas posts config)
   \<and> filter (\<lambda>i. relevance_score i = v) (extract_ideas posts config)
     = filter (\<lambda>i. relevance_score i = v)
         (map (idea_of_post config) (filter (qualifies config) posts))"
  by (simp add: extract_ideas_def extract_loop_map_filter py_sort_desc_mset
      py_sort_desc_sorted py_sort_desc_stable)

theorem extract_ideas_filter_sorted_witness:
  "map idea_post_id (filter (\<lambda>i. relevance_score i = 1.35)
       (extract_ideas example_posts example_config)) = [''a'', ''b'']
   \<and> size (mset (extract_ideas example_posts example_config)) = 3"
  using extract_ideas_filter_sorted [of example_posts example_config "1.35"]
  by (simp add: example_posts_def qualifies_def idea_of_post_def score_example_a
      score_example_b score_example_c score_example_d min_score_example make_idea_def
      py_round_def post_id_example)

section \<open>Properties of the store\<close>

lemma split_comma_no_comma:
  "CHR '','' \<notin> set t \<Longrightarrow> split_comma cur t = [rev cur @ t]"
  by (induction t arbitrary: cur) auto

lemma split_comma_append:
  "CHR '','' \<notin> set t \<Longrightarrow>
   split_comma cur (t @ CHR '','' # rest) = (rev cur @ t) # split_comma [] rest"
  by (induction t arbitrary: cur) auto

lemma split_join_comma:
  "storable_tags tags \<Longrightarrow>
   filter (\<lambda>tag. tag \<noteq> []) (py_split_comma (py_join_comma tags)) = tags"
proof (induction tags rule: py_join_comma.induct)
  case 1
  then show ?case by (simp add: py_split_comma_def)
next
  case (2 t)
  then show ?case by (simp add: py_split_comma_def storable_tags_def split_comma_no_comma)
next
  case (3 t u ts)
  then show ?case by (simp add: py_split_comma_def storable_tags_def split_comma_append)
qed

lemma idea_of_row_of_idea:
  "storable_tags (reason_tags idea) \<Longrightarrow> idea_of_row (row_of_idea idea extracted) = idea"
  by (simp add: idea_of_row_def row_of_idea_def split_join_comma)









lemma upsert_ideas_overflow:
  "idea \<in> set ideas \<Longrightarrow> \<not> idea_fits idea extracted \<Longrightarrow>
   upsert_ideas ideas extracted db = Inl overflow_error"
  by (auto simp: upsert_ideas_def list_all_iff)





text \<open>
  Without the condition on the integers nothing is stored: a creation timestamp of
  \<open>2 ^ 63\<close> makes the write raise \<open>OverflowError\<close>.
\<close>

lemma upsert_ideas_overflow_example:
  "upsert_ideas [(example_idea ''a'' 1.35 [''pain_point''])\<lparr>idea_created_utc := 2 ^ 63\<rparr>] 7
      empty_storage = Inl overflow_error"
  by (simp add: upsert_ideas_def idea_fits_def fits_int64_def)

section \<open>Properties of the enrichment merger\<close>

lemma attempt_loop_all_fail:
  "(\<And>a. a < n \<Longrightarrow> caught (net (j + a))) \<Longrightarrow>
   attempt_loop net n j failed =
     Inl (Exn ''RuntimeError'' (if failed \<or> 0 < n then ''Gemini request failed.''
        else ''Gemini request failed with unknown error.''))"
proof (induction n arbitrary: j failed)
  case 0
  then show ?case by simp
next
  case (Suc n)
  have c: "caught (net j)" using Suc.prems [of 0] by simp
  have "\<And>a. a < n \<Longrightarrow> caught (net (Suc j + a))" using Suc.prems [of "Suc _"] by simp
  then have "attempt_loop net n (Suc j) True = Inl (Exn ''RuntimeError'' ''Gemini request failed.'')"
    using Suc.IH [of "Suc j" True] by simp
  then show ?case using c by (auto simp: caught_def)
qed

lemma enrich_loop_length:
  "enrich_loop assess pm k ts = (e, ts', calls) \<Longrightarrow> length ts' = length ts"
  by (induction ts arbitrary: k e ts' calls)
     (auto split: option.splits sum.splits prod.splits)

lemma enrich_loop_merged:
  "enrich_loop assess pm k ts = (None, ts', calls) \<Longrightarrow> i < length ts \<Longrightarrow>
   pm (idea_post_id (ts ! i)) = Some p \<Longrightarrow> assess (k + i) p (ts ! i) = Inr (Some a) \<Longrightarrow>
   ts' ! i = merge_assessment (ts ! i) a"
proof (induction ts arbitrary: k ts' calls i)
  case Nil
  then show ?case by simp
next
  case (Cons t ts)
  show ?case
  proof (cases i)
    case 0
    then show ?thesis using Cons.prems
      by (auto split: option.splits sum.splits prod.splits)
  next
    case (Suc i')
    obtain e r c where rec: "enrich_loop assess pm (Suc k) ts = (e, r, c)"
      by (cases "enrich_loop assess pm (Suc k) ts") auto
    have eN: "e = None" and tl: "tl ts' = r"
      using Cons.prems(1) rec by (auto split: option.splits sum.splits prod.splits)
    have "r ! i' = merge_assessment (ts ! i') a"
      using Cons.IH [of "Suc k" r c i'] rec eN Cons.prems Suc by simp
    moreover have "ts' \<noteq> []"
      using Cons.prems(1) rec by (auto split: option.splits sum.splits prod.splits)
    ultimately show ?thesis using Suc tl by (cases ts') auto
  qed
qed

lemma py_sort_desc_length: "length (py_sort_desc k xs) = length xs"
  by (simp add: py_sort_desc_def)

lemma py_sort_desc_set: "set (py_sort_desc k xs) = set xs"
  by (simp add: py_sort_desc_def)

lemma py_sorted_set_set: "set (py_sorted_set xs) = set xs"
  by (simp add: py_sorted_set_def)

lemmas llm_eval = llm_config_def example_gemini_def example_config_def llm_ideas_def
  llm_posts_def example_idea_def example_post_def fake_assessor_def fake_assessment_def
  enrich_ideas_with_gemini_def py_sort_desc_def post_by_id_def merge_assessment_def
  py_sorted_set_def py_round_def Let_def

lemma sorted_llm: "py_sort_desc relevance_score llm_ideas = llm_ideas"
  by (simp add: llm_ideas_def py_sort_desc_def example_idea_def)

text \<open>
  Claim C6. When the merger is given an assessor and returns, a candidate among the
  first \<open>max(max_candidates, 1)\<close> ideas in descending order of score whose post is
  known and whose call yields an assessment with profit score \<open>P\<close> has afterwards the
  relevance score \<open>round(S * 0.35 + (P / 10.0) * 0.65, 3)\<close>, \<open>S\<close> being its score
  before; its tags are its former tags, \<open>llm_assessed\<close> and the tags of the
  assessment (which \<open>assess\<close> has normalized); it is in the list returned; and a score
  of 4.0 with a profit score of 82.0 gives 6.73.
\<close>

theorem enrich_merges_candidate:
  assumes cfg: "gemini config = Some g" "enabled g"
    and i: "i < length ideas" "int i < max (max_candidates g) 1"
    and post: "post_by_id posts (idea_post_id (py_sort_desc relevance_score ideas ! i)) = Some post"
    and valid: "assess i post (py_sort_desc relevance_score ideas ! i) = Inr (Some a)"
    and ret: "returned (enrich_ideas_with_gemini net ideas posts config (Some assess)) = Inr out"
  shows "relevance_score (ideas_after (enrich_ideas_with_gemini net ideas posts config (Some assess)) ! i)
           = py_round 3 (relevance_score (py_sort_desc relevance_score ideas ! i) * 0.35
                          + (profit_score a / 10.0) * 0.65)
     \<and> set (reason_tags (ideas_after (enrich_ideas_with_gemini net ideas posts config (Some assess)) ! i))
           = insert ''llm_assessed''
               (set (reason_tags (py_sort_desc relevance_score ideas ! i)) \<union> set (assessment_tags a))
     \<and> ideas_after (enrich_ideas_with_gemini net ideas posts config (Some assess)) ! i \<in> set out
     \<and> (relevance_score (py_sort_desc relevance_score ideas ! i) = 4.0 \<and> profit_score a = 82.0
          \<longrightarrow> relevance_score (ideas_after (enrich_ideas_with_gemini net ideas posts config (Some assess)) ! i) = 6.73)"
proof -
  let ?sorted = "py_sort_desc relevance_score ideas"
  let ?n = "nat (max (max_candidates g) 1)"
  let ?targets = "take ?n ?sorted"
  obtain e ts' calls where loop: "enrich_loop assess (post_by_id posts) 0 ?targets = (e, ts', calls)"
    by (cases "enrich_loop assess (post_by_id posts) 0 ?targets") auto
  have ne: "ideas \<noteq> []" using i(1) by auto
  have after: "ideas_after (enrich_ideas_with_gemini net ideas posts config (Some assess))
                 = ts' @ drop ?n ?sorted"
    using cfg ne loop by (simp add: enrich_ideas_with_gemini_def Let_def)
  have retd: "returned (enrich_ideas_with_gemini net ideas posts config (Some assess))
                 = (case e of Some exc \<Rightarrow> Inl exc
                    | None \<Rightarrow> Inr (py_sort_desc relevance_score (ts' @ drop ?n ?sorted)))"
    using cfg ne loop by (simp add: enrich_ideas_with_gemini_def Let_def)
  have eN: "e = None" using ret retd by (cases e) auto
  have out: "out = py_sort_desc relevance_score (ts' @ drop ?n ?sorted)"
    using ret retd eN by simp
  have it: "i < length ?targets" using i by (simp add: py_sort_desc_length)
  have nth: "?targets ! i = ?sorted ! i" using i by simp
  have len: "length ts' = length ?targets" using loop by (rule enrich_loop_length)
  have "ts' ! i = merge_assessment (?targets ! i) a"
    using enrich_loop_merged [of assess "post_by_id posts" 0 ?targets ts' calls i post a]
      loop eN it post valid nth by simp
  then have new: "ideas_after (enrich_ideas_with_gemini net ideas posts config (Some assess)) ! i
                    = merge_assessment (?sorted ! i) a"
    using after it len nth by (simp add: nth_append)
  have mem: "merge_assessment (?sorted ! i) a \<in> set out"
  proof -
    have "ts' ! i \<in> set ts'" using it len by simp
    then show ?thesis
      using \<open>ts' ! i = merge_assessment (?targets ! i) a\<close> nth
      by (simp add: out py_sort_desc_set)
  qed
  show ?thesis
    unfolding new using mem
    by (auto simp: merge_assessment_def py_sorted_set_set py_round_def)
qed

theorem enrich_merges_candidate_witness:
  "relevance_score
     (ideas_after (enrich_ideas_with_gemini first_candidate_times_out llm_ideas llm_posts (llm_config 2)
        (Some fake_assessor)) ! 0) = 6.73
   \<and> reason_tags
       (ideas_after (enrich_ideas_with_gemini first_candidate_times_out llm_ideas llm_posts (llm_config 2)
          (Some fake_assessor)) ! 0)
     = [''llm_assessed'', ''llm_pays_signal'', ''llm_real_pain'', ''pain_point'']
   \<and> llm_profit_score
       (ideas_after (enrich_ideas_with_gemini first_candidate_times_out llm_ideas llm_posts (llm_config 2)
          (Some fake_assessor)) ! 2) = None"
  using enrich_merges_candidate
    [of "llm_config 2" "example_gemini 2" 0 llm_ideas llm_posts
        "example_post ''1'' ''Automate reporting'' ''Manual reporting is slow.''"
        fake_assessor
        "fake_assessment (example_post ''1'' ''Automate reporting'' ''Manual reporting is slow.'')"
        first_candidate_times_out
        "projr (returned (enrich_ideas_with_gemini first_candidate_times_out llm_ideas llm_posts (llm_config 2)
           (Some fake_assessor)))"]
  by (simp add: llm_eval)

lemma drop_take_drop: "i \<le> n \<Longrightarrow> drop i (take n xs) @ drop n xs = drop i xs"
proof -
  assume le: "i \<le> n"
  have "drop i (take n xs) = take (n - i) (drop i xs)"
    by (simp add: drop_take)
  moreover have "drop n xs = drop (n - i) (drop i xs)"
    using le by simp
  ultimately show ?thesis
    by (simp only: append_take_drop_id)
qed

lemma enrich_loop_raises:
  "i < length ts \<Longrightarrow> pm (idea_post_id (ts ! i)) = Some p \<Longrightarrow>
   assess (k + i) p (ts ! i) = Inl exc \<Longrightarrow>
   (\<forall>j<i. \<forall>q. pm (idea_post_id (ts ! j)) = Some q \<longrightarrow> (\<exists>r. assess (k + j) q (ts ! j) = Inr r)) \<Longrightarrow>
   \<exists>ts' calls. enrich_loop assess pm k ts = (Some exc, ts', calls)
      \<and> drop i ts' = drop i ts \<and> length ts' = length ts
      \<and> (\<forall>j<i. ts' ! j = assessed_idea assess pm (k + j) (ts ! j))
      \<and> calls \<noteq> [] \<and> last calls = (p, ts ! i)"
proof (induction ts arbitrary: k i)
  case Nil
  then show ?case by simp
next
  case (Cons t ts)
  show ?case
  proof (cases i)
    case 0
    then show ?thesis using Cons.prems by simp
  next
    case (Suc i')
    have a: "i' < length ts" "pm (idea_post_id (ts ! i')) = Some p"
      "assess (Suc k + i') p (ts ! i') = Inl exc"
      using Cons.prems Suc by simp_all
    have b: "\<forall>j<i'. \<forall>q. pm (idea_post_id (ts ! j)) = Some q
               \<longrightarrow> (\<exists>r. assess (Suc k + j) q (ts ! j) = Inr r)"
    proof (intro allI impI)
      fix j q
      assume "j < i'" "pm (idea_post_id (ts ! j)) = Some q"
      then show "\<exists>r. assess (Suc k + j) q (ts ! j) = Inr r"
        using Cons.prems(4) Suc by (auto dest!: spec [of _ "Suc j"])
    qed
    obtain ts' calls where rec: "enrich_loop assess pm (Suc k) ts = (Some exc, ts', calls)"
      "drop i' ts' = drop i' ts" "length ts' = length ts" "calls \<noteq> []"
      "last calls = (p, ts ! i')"
      and kept: "\<forall>j<i'. ts' ! j = assessed_idea assess pm (Suc k + j) (ts ! j)"
      using Cons.IH [OF a b] by blast
    have nth: "\<forall>j<Suc i'. (assessed_idea assess pm k t # ts') ! j
                 = assessed_idea assess pm (k + j) ((t # ts) ! j)"
      using kept by (auto simp: nth_Cons split: nat.splits)
    have hd: "\<forall>q. pm (idea_post_id t) = Some q \<longrightarrow> (\<exists>r. assess k q t = Inr r)"
      using Cons.prems(4) Suc by (auto dest!: spec [of _ 0])
    show ?thesis
    proof (cases "pm (idea_post_id t)")
      case None
      then have "assessed_idea assess pm k t = t" by (simp add: assessed_idea_def)
      then show ?thesis using None rec Suc nth by simp
    next
      case (Some q)
      then obtain r where r: "assess k q t = Inr r" using hd by blast
      show ?thesis
      proof (cases r)
        case None
        then have "assessed_idea assess pm k t = t"
          using Some r by (simp add: assessed_idea_def)
        then show ?thesis using Some r None rec Suc nth by simp
      next
        case (Some a)
        then have "assessed_idea assess pm k t = merge_assessment t a"
          using \<open>pm (idea_post_id t) = Some q\<close> r by (simp add: assessed_idea_def)
        then show ?thesis using \<open>pm (idea_post_id t) = Some q\<close> r Some rec Suc nth by simp
      qed
    qed
  qed
qed

lemma generate_content_all_fail:
  "\<forall>j<3. caught (net j) \<Longrightarrow>
   generate_content net 3 = Inl (Exn ''RuntimeError'' ''Gemini request failed.'')"
  using attempt_loop_all_fail [of 3 net 0 False]
  by (simp add: generate_content_def)

text \<open>
  Claim C4, as the code has it. With the default assessor (three attempts), when every
  attempt for a candidate ends in one of the four caught errors and no earlier candidate
  raised, the merger raises \<open>RuntimeError("Gemini request failed.")\<close>, and the call
  for that candidate is the last one made: the candidate's idea and the ideas of all
  later candidates are left as they were, and every earlier candidate is as its own
  call left it, merged when that call gave an assessment.
\<close>

theorem enrich_network_failure_propagates:
  assumes cfg: "gemini config = Some g" "enabled g"
    and i: "i < length ideas" "int i < max (max_candidates g) 1"
    and post: "post_by_id posts (idea_post_id (py_sort_desc relevance_score ideas ! i)) = Some post"
    and fails: "\<forall>j<3. caught (net i j)"
    and earlier: "\<forall>k<i. \<forall>q. post_by_id posts (idea_post_id (py_sort_desc relevance_score ideas ! k)) = Some q
                   \<longrightarrow> (\<exists>r. gemini_assess net 3 k q (py_sort_desc relevance_score ideas ! k) = Inr r)"
  shows "returned (enrich_ideas_with_gemini net ideas posts config None)
           = Inl (Exn ''RuntimeError'' ''Gemini request failed.'')
     \<and> drop i (ideas_after (enrich_ideas_with_gemini net ideas posts config None))
           = drop i (py_sort_desc relevance_score ideas)
     \<and> (\<forall>k<i. ideas_after (enrich_ideas_with_gemini net ideas posts config None) ! k
           = assessed_idea (gemini_assess net 3) (post_by_id posts) k
               (py_sort_desc relevance_score ideas ! k))
     \<and> last (assess_calls (enrich_ideas_with_gemini net ideas posts config None))
           = (post, py_sort_desc relevance_score ideas ! i)"
proof -
  let ?sorted = "py_sort_desc relevance_score ideas"
  let ?n = "nat (max (max_candidates g) 1)"
  let ?targets = "take ?n ?sorted"
  let ?exc = "Exn ''RuntimeError'' ''Gemini request failed.''"
  have ne: "ideas \<noteq> []" using i(1) by auto
  have it: "i < length ?targets" and iN: "i < ?n" using i by (simp_all add: py_sort_desc_length)
  have nth: "\<And>k. k \<le> i \<Longrightarrow> ?targets ! k = ?sorted ! k" using iN by simp
  have raise: "gemini_assess net 3 (0 + i) post (?targets ! i) = Inl ?exc"
    using generate_content_all_fail [OF fails] by (simp add: gemini_assess_def)
  have early: "\<forall>j<i. \<forall>q. post_by_id posts (idea_post_id (?targets ! j)) = Some q
                 \<longrightarrow> (\<exists>r. gemini_assess net 3 (0 + j) q (?targets ! j) = Inr r)"
    using earlier nth by simp
  have found: "post_by_id posts (idea_post_id (?targets ! i)) = Some post"
    using post nth by simp
  obtain ts' calls where loop:
    "enrich_loop (gemini_assess net 3) (post_by_id posts) 0 ?targets = (Some ?exc, ts', calls)"
    "drop i ts' = drop i ?targets" "length ts' = length ?targets"
    "calls \<noteq> []" "last calls = (post, ?targets ! i)"
    and kept: "\<forall>j<i. ts' ! j
                 = assessed_idea (gemini_assess net 3) (post_by_id posts) (0 + j) (?targets ! j)"
    using enrich_loop_raises [OF it found raise early] by blast
  have res: "enrich_ideas_with_gemini net ideas posts config None
               = \<lparr> returned = Inl ?exc, ideas_after = ts' @ drop ?n ?sorted, assess_calls = calls \<rparr>"
    using cfg ne loop(1) by (simp add: enrich_ideas_with_gemini_def Let_def)
  have before: "\<forall>k<i. (ts' @ drop ?n ?sorted) ! k
                  = assessed_idea (gemini_assess net 3) (post_by_id posts) k (?sorted ! k)"
    using kept nth it loop(3) by (simp add: nth_append)
  have "drop i (ts' @ drop ?n ?sorted) = drop i ?targets @ drop ?n ?sorted"
    using loop(2,3) it by simp
  also have "\<dots> = drop i ?sorted"
    using iN by (intro drop_take_drop) simp
  finally show ?thesis using res loop(5) nth before by simp
qed

lemma second_candidate_reply:
  "gemini_assess second_candidate_times_out 3 0 post idea
     = Inr (Some \<lparr> profit_score = 82.0, confidence = 0.74, summary = ''s'',
                    monetization_hint = ''h'', assessment_tags = [''llm_real_pain''] \<rparr>)"
  by (simp add: gemini_assess_def generate_content_def second_candidate_times_out_def
      clamp_float_def eval_nat_numeral)
     code_simp

theorem enrich_network_failure_propagates_witness:
  "caught (second_candidate_times_out 1 0) \<and> caught (second_candidate_times_out 1 1)
   \<and> caught (second_candidate_times_out 1 2)
   \<and> returned (enrich_ideas_with_gemini second_candidate_times_out llm_ideas llm_posts
        (llm_config 2) None) = Inl (Exn ''RuntimeError'' ''Gemini request failed.'')
   \<and> relevance_score (ideas_after (enrich_ideas_with_gemini second_candidate_times_out
        llm_ideas llm_posts (llm_config 2) None) ! 0) = 6.73
   \<and> llm_profit_score (ideas_after (enrich_ideas_with_gemini second_candidate_times_out
        llm_ideas llm_posts (llm_config 2) None) ! 0) = Some 82
   \<and> drop 1 (ideas_after (enrich_ideas_with_gemini second_candidate_times_out llm_ideas
        llm_posts (llm_config 2) None)) = drop 1 llm_ideas"
  using enrich_network_failure_propagates
    [of "llm_config 2" "example_gemini 2" 1 llm_ideas llm_posts
        "example_post ''2'' ''Low signal item'' ''Some post text.''"
        second_candidate_times_out]
  by (simp add: llm_config_def example_gemini_def example_config_def sorted_llm caught_def
      second_candidate_times_out_def assessed_idea_def second_candidate_reply)
     (simp add: llm_ideas_def llm_posts_def post_by_id_def example_idea_def example_post_def
        merge_assessment_def py_round_def py_sorted_set_def second_candidate_reply)

text \<open>
  The claim as worded fails: when the three attempts for the first candidate time out,
  the exception leaves the merger and the second candidate, whose call would have
  succeeded, is never assessed.
\<close>

theorem enrich_network_failure_counterexample:
  "returned (enrich_ideas_with_gemini first_candidate_times_out llm_ideas llm_posts
      (llm_config 2) None) = Inl (Exn ''RuntimeError'' ''Gemini request failed.'')
   \<and> ideas_after (enrich_ideas_with_gemini first_candidate_times_out llm_ideas llm_posts
      (llm_config 2) None) = llm_ideas
   \<and> length (assess_calls (enrich_ideas_with_gemini first_candidate_times_out llm_ideas
      llm_posts (llm_config 2) None)) = 1"
  by (simp add: llm_eval first_candidate_times_out_def gemini_assess_def generate_content_def
      eval_nat_numeral)

lemma enrich_loop_single:
  "\<exists>e t'. enrich_loop assess pm k [t]
      = (e, [t'], (case pm (idea_post_id t) of None \<Rightarrow> [] | Some p \<Rightarrow> [(p, t)]))"
proof (cases "pm (idea_post_id t)")
  case None
  then show ?thesis by simp
next
  case (Some p)
  show ?thesis
  proof (cases "assess k p t")
    case (Inl exc)
    then show ?thesis using Some by simp
  next
    case (Inr r)
    then show ?thesis using Some by (cases r) auto
  qed
qed

lemma py_sort_desc_hd_max:
  assumes "x \<in> set xs"
  shows "k x \<le> k (hd (py_sort_desc k xs))"
proof -
  let ?s = "py_sort_desc k xs"
  have mem: "x \<in> set ?s" using assms by (simp add: py_sort_desc_set)
  then obtain y ys where s: "?s = y # ys" by (cases ?s) auto
  have "sorted_wrt (\<lambda>a b. k b \<le> k a) (y # ys)"
    using py_sort_desc_sorted [of k xs] s by simp
  then have "\<forall>z \<in> set ys. k z \<le> k y" by simp
  then show ?thesis using mem s by auto
qed

text \<open>
  Claim C10, as the code has it. For a non-empty idea list and an enabled enrichment
  configuration with \<open>max_candidates \<le> 0\<close>, the merger selects exactly one candidate,
  the first idea in descending order of score, whose score no idea exceeds; it calls the
  assessor once, for that candidate, when the candidate's post is among the posts
  passed, and not at all otherwise; every other idea is left as it was.
\<close>

theorem enrich_cap_clamped_at_one:
  assumes cfg: "gemini config = Some g" "enabled g"
    and cap: "max_candidates g \<le> 0"
    and ne: "ideas \<noteq> []"
  shows "assess_calls (enrich_ideas_with_gemini net ideas posts config assessor)
           = (case post_by_id posts (idea_post_id (hd (py_sort_desc relevance_score ideas))) of
                None \<Rightarrow> []
              | Some post \<Rightarrow> [(post, hd (py_sort_desc relevance_score ideas))])
     \<and> drop 1 (ideas_after (enrich_ideas_with_gemini net ideas posts config assessor))
           = drop 1 (py_sort_desc relevance_score ideas)
     \<and> (\<forall>x \<in> set ideas.
           relevance_score x \<le> relevance_score (hd (py_sort_desc relevance_score ideas)))"
proof -
  let ?sorted = "py_sort_desc relevance_score ideas"
  let ?eff = "case assessor of Some a \<Rightarrow> a | None \<Rightarrow> gemini_assess net 3"
  have n: "max (max_candidates g) 1 = 1" using cap by simp
  have "?sorted \<noteq> []" using ne py_sort_desc_length [of relevance_score ideas] by auto
  then have tk: "take (Suc 0) ?sorted = [hd ?sorted]" by (cases ?sorted) auto
  obtain e t' where loop:
    "enrich_loop ?eff (post_by_id posts) 0 [hd ?sorted]
       = (e, [t'], (case post_by_id posts (idea_post_id (hd ?sorted)) of
                      None \<Rightarrow> [] | Some p \<Rightarrow> [(p, hd ?sorted)]))"
    using enrich_loop_single [of ?eff "post_by_id posts" 0 "hd ?sorted"] by blast
  have calls: "assess_calls (enrich_ideas_with_gemini net ideas posts config assessor)
          = (case post_by_id posts (idea_post_id (hd ?sorted)) of
                      None \<Rightarrow> [] | Some p \<Rightarrow> [(p, hd ?sorted)])"
    using cfg ne by (simp add: enrich_ideas_with_gemini_def Let_def n tk loop del: enrich_loop.simps)
  have after: "ideas_after (enrich_ideas_with_gemini net ideas posts config assessor)
          = t' # drop (Suc 0) ?sorted"
    using cfg ne by (simp add: enrich_ideas_with_gemini_def Let_def n tk loop del: enrich_loop.simps)
  show ?thesis using calls after by (simp add: py_sort_desc_hd_max)
qed

theorem enrich_cap_clamped_at_one_witness:
  "assess_calls (enrich_ideas_with_gemini first_candidate_times_out llm_ideas llm_posts (llm_config 0) (Some fake_assessor))
     = [(example_post ''1'' ''Automate reporting'' ''Manual reporting is slow.'',
         example_idea ''1'' 4.0 [''pain_point''])]"
  using enrich_cap_clamped_at_one [of "llm_config 0" "example_gemini 0" llm_ideas first_candidate_times_out llm_posts
     "Some fake_assessor"]
  by (simp add: llm_config_def example_gemini_def example_config_def)
     (simp add: llm_ideas_def llm_posts_def post_by_id_def example_idea_def example_post_def
        py_sort_desc_def)

text \<open>
  The claim as worded fails when the post of the top idea is not among the posts
  passed: the candidate is selected and skipped, and nothing is assessed.
\<close>

theorem enrich_cap_counterexample:
  "assess_calls (enrich_ideas_with_gemini first_candidate_times_out llm_ideas [] (llm_config 0) (Some fake_assessor)) = []
   \<and> ideas_after (enrich_ideas_with_gemini first_candidate_times_out llm_ideas [] (llm_config 0) (Some fake_assessor))
       = llm_ideas"
  by (simp add: llm_config_def example_gemini_def example_config_def llm_ideas_def
      example_idea_def enrich_ideas_with_gemini_def py_sort_desc_def post_by_id_def Let_def)

section \<open>Properties of the run controller\<close>

lemma fold_max_ge_init: "(a::int) \<le> fold max xs a"
  by (induction xs arbitrary: a) (auto intro: order_trans [OF max.cobounded2])

lemma fold_max_ge_mem: "(x::int) \<in> set xs \<Longrightarrow> x \<le> fold max xs a"
proof (induction xs arbitrary: a)
  case Nil
  then show ?case by simp
next
  case (Cons y ys)
  show ?case
  proof (cases "x = y")
    case True
    have "max y a \<le> fold max ys (max y a)" by (rule fold_max_ge_init)
    then show ?thesis using True by simp
  next
    case False
    then show ?thesis using Cons by simp
  qed
qed

lemma new_run_id_fresh: "r \<in> set logs \<Longrightarrow> run_id r \<noteq> new_run_id logs"
proof -
  assume "r \<in> set logs"
  then have "run_id r \<le> fold max (map run_id logs) 0"
    by (intro fold_max_ge_mem) simp
  then show ?thesis by (simp add: new_run_id_def)
qed

lemma finish_new_run:
  "run_logs (finish_run (new_run_id logs) st fin a b c d m
       (db\<lparr>run_logs := logs @ [row\<lparr>run_id := new_run_id logs\<rparr>]\<rparr>))
     = logs @ [row\<lparr> run_id := new_run_id logs, run_finished_utc := Some fin, status := st,
                      fetched_posts := a, extracted_ideas := b, window_ideas := c,
                      email_sent := d, message := m \<rparr>]"
proof -
  have "map (\<lambda>r. if run_id r = new_run_id logs
                  then r\<lparr> run_finished_utc := Some fin, status := st,
                           fetched_posts := a, extracted_ideas := b,
                           window_ideas := c, email_sent := d, message := m \<rparr>
                  else r) logs = logs"
    by (rule map_idI) (simp add: new_run_id_fresh)
  then show ?thesis by (simp add: finish_run_def)
qed

lemma normal_daily: "py_strip (py_lower ''daily'') = ''daily''" by code_simp
lemma normal_weekly: "py_strip (py_lower ''weekly'') = ''weekly''" by code_simp

lemma has_success_after_start:
  "has_successful_run_on_day p day (snd (start_run p' day' started db))
     = has_successful_run_on_day p day db"
  by (simp add: has_successful_run_on_day_def start_run_def Let_def)

lemma latest_after_start:
  "get_latest_successful_run p (snd (start_run p' day' started db))
     = get_latest_successful_run p db"
  by (simp add: get_latest_successful_run_def start_run_def Let_def)

lemma start_run_eq:
  "start_run p day started db
     = (new_run_id (run_logs db),
        db\<lparr>run_logs := run_logs db @ [started_row (new_run_id (run_logs db)) p day started]\<rparr>)"
  by (simp add: start_run_def started_row_def Let_def)

lemma finish_started_row:
  "finish_run (new_run_id (run_logs db)) st fin 0 0 0 False m
       (db\<lparr>run_logs := run_logs db @ [started_row (new_run_id (run_logs db)) p day started]\<rparr>)
     = db\<lparr>run_logs := run_logs db @ [closed_row (new_run_id (run_logs db)) p day started fin st m]\<rparr>"
proof -
  have "map (\<lambda>r. if run_id r = new_run_id (run_logs db)
                  then r\<lparr> run_finished_utc := Some fin, status := st,
                           fetched_posts := 0, extracted_ideas := 0,
                           window_ideas := 0, email_sent := False, message := m \<rparr>
                  else r) (run_logs db) = run_logs db"
    by (rule map_idI) (simp add: new_run_id_fresh)
  then show ?thesis by (simp add: finish_run_def started_row_def closed_row_def)
qed

text \<open>
  The skip itself. For a period \<open>daily\<close> or \<open>weekly\<close>, when the run log holds a
  run of that period with status \<open>success\<close> whose day is the day that \<open>strftime\<close>
  reads from the run time, and the closing \<open>finish_run\<close> does not fail, \<open>run_once\<close>
  returns a result with status \<open>skipped_same_day\<close>, zero counts and
  \<open>email_sent = False\<close>; the world afterwards is the world before with one more run
  row, closed with status \<open>skipped_same_day\<close>, and one more call of \<open>finish_run\<close>:
  the tables of posts and ideas are unchanged and no call was made to the post source,
  the report functions or a notifier.
\<close>

lemma run_once_skips_when_day_matches:
  assumes p: "p = ''daily'' \<or> p = ''weekly''"
    and prior: "r \<in> set (run_logs (storage w))" "period r = p"
      "run_day_utc r = ymd (runtime_of env)" "status r = ''success''"
    and closes: "storage_error env (FinishRun ''skipped_same_day'') = None"
  shows "run_once env config p w =
     (Inr \<lparr> res_status = ''skipped_same_day'', res_fetched_posts = 0,
            res_extracted_ideas = 0, res_window_ideas = 0,
            started_utc = timestamp (runtime_of env), finished_utc = finish_time env,
            csv_path = None, report_path = None, res_email_sent = False,
            res_message = ''Skipped duplicate '' @ p @ '' run for UTC day ''
               @ ymd (runtime_of env) @ ''.'' \<rparr>,
      w\<lparr>storage := (storage w)\<lparr>run_logs := run_logs (storage w) @
            [closed_row (new_run_id (run_logs (storage w))) p (ymd (runtime_of env))
               (timestamp (runtime_of env)) (finish_time env) ''skipped_same_day''
               (''Skipped duplicate '' @ p @ '' run for UTC day ''
                  @ ymd (runtime_of env) @ ''.'')]\<rparr>,
        finish_calls := finish_calls w
            @ [(new_run_id (run_logs (storage w)), ''skipped_same_day'')]\<rparr>)"
proof -
  have norm: "py_strip (py_lower p) = p" using p normal_daily normal_weekly by auto
  have "has_successful_run_on_day p (ymd (runtime_of env)) (storage w)"
    using prior by (auto simp: has_successful_run_on_day_def list_ex_iff)
  then have skip: "has_successful_run_on_day p (ymd (runtime_of env))
       (snd (start_run p (ymd (runtime_of env)) (timestamp (runtime_of env)) (storage w)))"
    by (simp add: has_success_after_start)
  show ?thesis
    using p skip closes
    unfolding run_once_def norm Let_def
    by (auto simp: start_run_eq finish_started_row)
qed

lemma fetch_loop_calls:
  "fetch_loop env config F subs posts w = (res, w') \<Longrightarrow>
   \<exists>n\<le>length subs.
     w' = w\<lparr>fetch_calls := fetch_calls w
             @ map (\<lambda>s. (s, F, max_posts_per_subreddit config)) (take n subs)\<rparr>
     \<and> (isl res \<or> n = length subs)"
proof (induction subs arbitrary: posts w)
  case Nil
  then show ?case by auto
next
  case (Cons sub subs)
  let ?w1 = "w\<lparr>fetch_calls := fetch_calls w @ [(sub, F, max_posts_per_subreddit config)]\<rparr>"
  show ?case
  proof (cases "fetch_new_posts_since env (length (fetch_calls w)) sub F
                  (max_posts_per_subreddit config)")
    case (Inl exc)
    have "res = Inl exc \<and> w' = ?w1" using Cons.prems by (simp add: Let_def Inl)
    then show ?thesis by (intro exI [of _ 1]) simp
  next
    case (Inr fetched)
    have "fetch_loop env config F subs (posts @ fetched) ?w1 = (res, w')"
      using Cons.prems by (simp add: Let_def Inr)
    then obtain n where n: "n \<le> length subs"
      "w' = ?w1\<lparr>fetch_calls := fetch_calls ?w1
             @ map (\<lambda>s. (s, F, max_posts_per_subreddit config)) (take n subs)\<rparr>"
      "isl res \<or> n = length subs"
      using Cons.IH by blast
    then show ?thesis by (intro exI [of _ "Suc n"]) auto
  qed
qed

lemma upsert_posts_frame:
  "upsert_posts posts t s = Inr s' \<Longrightarrow>
   run_logs s' = run_logs s \<and> ideas_tbl s' = ideas_tbl s"
  by (auto simp: upsert_posts_def split: if_splits)

lemma upsert_ideas_frame:
  "upsert_ideas ideas t s = Inr s' \<Longrightarrow>
   run_logs s' = run_logs s \<and> posts_tbl s' = posts_tbl s"
  by (auto simp: upsert_ideas_def split: if_splits)

lemma persist_frame:
  "persist_and_extract env config F started posts w = (res, w') \<Longrightarrow>
   run_logs (storage w') = run_logs (storage w) \<and> fetch_calls w' = fetch_calls w
   \<and> finish_calls w' = finish_calls w \<and> render_calls w' = render_calls w"
  by (auto simp: persist_and_extract_def Let_def split: option.splits sum.splits)
     (metis upsert_posts_frame upsert_ideas_frame)+

lemma persist_window:
  "persist_and_extract env config F started posts w = (Inr (ideas, window), w') \<Longrightarrow>
   window = get_ideas_since F (storage w')"
  by (auto simp: persist_and_extract_def Let_def split: option.splits sum.splits)

lemma write_reports_frame:
  "write_reports env config p runtime window w = (res, w') \<Longrightarrow>
   storage w' = storage w \<and> fetch_calls w' = fetch_calls w \<and> finish_calls w' = finish_calls w"
  by (auto simp: write_reports_def Let_def split: option.splits sum.splits)

lemma write_reports_rendered:
  "write_reports env config p runtime window w = (Inr r, w') \<Longrightarrow>
   render_calls w' = render_calls w @ [window]"
  by (auto simp: write_reports_def Let_def split: option.splits sum.splits)

lemma notify_frame:
  "notify env config p F a b report name w = (res, w') \<Longrightarrow>
   storage w' = storage w \<and> fetch_calls w' = fetch_calls w \<and> finish_calls w' = finish_calls w
   \<and> render_calls w' = render_calls w"
  by (auto simp: notify_def Let_def split: option.splits sum.splits)

lemma finish_run_frame:
  "ideas_tbl (finish_run rid st fin a b c d m s) = ideas_tbl s
   \<and> posts_tbl (finish_run rid st fin a b c d m s) = posts_tbl s"
  by (simp add: finish_run_def)

lemma get_ideas_since_cong:
  "ideas_tbl s = ideas_tbl s' \<Longrightarrow> get_ideas_since F s = get_ideas_since F s'"
  by (simp add: get_ideas_since_def)

lemma try_block_cases:
  assumes "try_block env config p runtime rid F started w = (res, w')"
  obtains (fetch) exc where "fetch_loop env config F (subreddits config) [] w = (Inl exc, w')"
      "res = Inl exc"
  | (later) posts w1 where "fetch_loop env config F (subreddits config) [] w = (Inr posts, w1)"
      "fetch_calls w' = fetch_calls w1"
      "isl res \<longrightarrow> run_logs (storage w') = run_logs (storage w1) \<and> finish_calls w' = finish_calls w1"
      "\<not> isl res \<longrightarrow> render_calls w' = render_calls w1 @ [get_ideas_since F (storage w')]"
proof (cases "fetch_loop env config F (subreddits config) [] w")
  case (Pair r1 w1)
  show ?thesis
  proof (cases r1)
    case (Inl exc)
    then show ?thesis using assms Pair fetch by (simp add: try_block_def)
  next
    case (Inr posts)
    note f = Pair [unfolded Inr]
    obtain r2 w2 where pe: "persist_and_extract env config F started posts w1 = (r2, w2)"
      by (cases "persist_and_extract env config F started posts w1") auto
    note pf = persist_frame [OF pe]
    show ?thesis
    proof (cases r2)
      case (Inl exc)
      then have "res = Inl exc" "w' = w2" using assms f pe by (simp_all add: try_block_def)
      then show ?thesis using later [OF f] pf by simp
    next
      case r2: (Inr iw)
      obtain ideas window where iw: "iw = (ideas, window)" by (cases iw) auto
      have win: "window = get_ideas_since F (storage w2)"
        using persist_window pe r2 iw by blast
      obtain r3 w3 where wr: "write_reports env config p runtime window w2 = (r3, w3)"
        by (cases "write_reports env config p runtime window w2") auto
      note wf = write_reports_frame [OF wr]
      show ?thesis
      proof (cases r3)
        case (Inl exc)
        then have "res = Inl exc" "w' = w3"
          using assms f pe r2 iw wr by (simp_all add: try_block_def)
        then show ?thesis using later [OF f] pf wf by simp
      next
        case r3: (Inr paths)
        obtain csv report name where paths: "paths = (csv, report, name)"
          by (cases paths) auto
        have rend: "render_calls w3 = render_calls w2 @ [window]"
          using write_reports_rendered wr r3 by blast
        obtain r4 w4 where nt: "notify env config p F (length posts) (length ideas) report name w3
             = (r4, w4)"
          by (cases "notify env config p F (length posts) (length ideas) report name w3") auto
        note nf = notify_frame [OF nt]
        show ?thesis
        proof (cases r4)
          case (Inl exc)
          then have "res = Inl exc" "w' = w4"
            using assms f pe r2 iw wr r3 paths nt by (simp_all add: try_block_def)
          then show ?thesis using later [OF f] pf wf nf by simp
        next
          case r4: (Inr sent)
          show ?thesis
          proof (cases "strftime_utc env F")
            case (Inl exc)
            then have "res = Inl exc" "w' = w4"
              using assms f pe r2 iw wr r3 paths nt r4 by (simp_all add: try_block_def)
            then show ?thesis using later [OF f] pf wf nf by simp
          next
            case since: (Inr since)
            show ?thesis
            proof (cases "storage_error env (FinishRun ''success'')")
              case (Some exc)
              then have "res = Inl exc" "w' = w4"
                using assms f pe r2 iw wr r3 paths nt r4 since
                by (simp_all add: try_block_def)
              then show ?thesis using later [OF f] pf wf nf by simp
            next
              case None
              then have ok: "\<not> isl res"
                and w': "w' = w4\<lparr>storage := finish_run rid ''success'' (finish_time env)
                            (int (length posts)) (int (length ideas)) (int (length window)) sent
                            (''Success. Lookback started at '' @ since) (storage w4),
                           finish_calls := finish_calls w4 @ [(rid, ''success'')]\<rparr>"
                using assms f pe r2 iw wr r3 paths nt r4 since
                by (auto simp: try_block_def Let_def)
              have "get_ideas_since F (storage w') = get_ideas_since F (storage w2)"
                using w' nf wf by (intro get_ideas_since_cong) (simp add: finish_run_frame)
              then show ?thesis using later [OF f] ok w' pf wf nf rend win by simp
            qed
          qed
        qed
      qed
    qed
  qed
qed

lemma try_block_fetch_calls:
  assumes "try_block env config p runtime rid F started w = (res, w')"
  shows "\<exists>n\<le>length (subreddits config).
           fetch_calls w' = fetch_calls w
              @ map (\<lambda>s. (s, F, max_posts_per_subreddit config)) (take n (subreddits config))
           \<and> (\<not> isl res \<longrightarrow> n = length (subreddits config))"
  using assms
proof (cases rule: try_block_cases)
  case (fetch exc)
  from fetch_loop_calls [OF fetch(1)] fetch(2) show ?thesis by auto
next
  case (later posts w1)
  from fetch_loop_calls [OF later(1)] later(2) show ?thesis by auto
qed

lemma try_block_failure_frame:
  assumes "try_block env config p runtime rid F started w = (Inl exc, w')"
  shows "run_logs (storage w') = run_logs (storage w) \<and> finish_calls w' = finish_calls w"
  using assms
proof (cases rule: try_block_cases)
  case (fetch exc')
  from fetch_loop_calls [OF fetch(1)] show ?thesis by auto
next
  case (later posts w1)
  from fetch_loop_calls [OF later(1)] later(3) show ?thesis by auto
qed

lemma try_block_rendered:
  assumes "try_block env config p runtime rid F started w = (Inr r, w')"
  shows "render_calls w' = render_calls w @ [get_ideas_since F (storage w')]"
  using assms
proof (cases rule: try_block_cases)
  case (fetch exc')
  then show ?thesis by simp
next
  case (later posts w1)
  from fetch_loop_calls [OF later(1)] later(4) show ?thesis by auto
qed

lemma fst_start_run: "fst (start_run p day started db) = new_run_id (run_logs db)"
  by (simp add: start_run_def Let_def)

lemma run_logs_start_run:
  "run_logs (snd (start_run p day started db))
     = run_logs db @ [started_row (new_run_id (run_logs db)) p day started]"
  by (simp add: start_run_eq)

lemma finish_after_start:
  assumes "run_logs s = logs @ [started_row (new_run_id logs) p day started]"
  shows "run_logs (finish_run (new_run_id logs) st fin 0 0 0 False m s)
           = logs @ [closed_row (new_run_id logs) p day started fin st m]"
proof -
  have "map (\<lambda>r. if run_id r = new_run_id logs
                  then r\<lparr> run_finished_utc := Some fin, status := st,
                           fetched_posts := 0, extracted_ideas := 0,
                           window_ideas := 0, email_sent := False, message := m \<rparr>
                  else r) logs = logs"
    by (rule map_idI) (simp add: new_run_id_fresh)
  then show ?thesis using assms by (simp add: finish_run_def started_row_def closed_row_def)
qed

lemma run_once_fresh:
  assumes p: "p = ''daily'' \<or> p = ''weekly''"
    and fresh: "\<not> has_successful_run_on_day p (ymd (runtime_of env)) (storage w)"
  shows "run_once env config p w =
     (case attempt env config p w of
        (Inr result, w2) \<Rightarrow> (Inr result, w2)
      | (Inl exc, w2) \<Rightarrow>
          if \<not> is_exception exc then (Inl exc, w2)
          else
            (case storage_error env (FinishRun ''failed'') of
               Some exc2 \<Rightarrow> (Inl exc2, w2)
             | None \<Rightarrow>
                 (Inl exc,
                  w2\<lparr>storage := finish_run (new_run_id (run_logs (storage w))) ''failed''
                                  (finish_time env) 0 0 0 False
                                  (exn_type exc @ '': '' @ exn_msg exc) (storage w2),
                     finish_calls := finish_calls w2
                        @ [(new_run_id (run_logs (storage w)), ''failed'')]\<rparr>)))"
proof -
  let ?day = "ymd (runtime_of env)" and ?started = "timestamp (runtime_of env)"
  have norm: "py_strip (py_lower p) = p" using p normal_daily normal_weekly by auto
  have valid: "\<not> (p \<noteq> ''daily'' \<and> p \<noteq> ''weekly'')" using p by auto
  obtain rid db1 where sr: "start_run p ?day ?started (storage w) = (rid, db1)"
    by (cases "start_run p ?day ?started (storage w)") auto
  have rid: "new_run_id (run_logs (storage w)) = rid"
    using sr fst_start_run [of p ?day ?started "storage w"] by simp
  have db1: "snd (start_run p ?day ?started (storage w)) = db1" using sr by simp
  have nf: "\<not> has_successful_run_on_day p ?day db1"
    using fresh has_success_after_start [of p ?day p ?day ?started "storage w"] db1 by simp
  have lat: "get_latest_successful_run p db1 = get_latest_successful_run p (storage w)"
    using latest_after_start [of p p ?day ?started "storage w"] db1 by simp
  show ?thesis
    unfolding run_once_def norm Let_def attempt_def rid db1
    by (simp only: valid if_False sr prod.case nf lat)
qed

text \<open>
  Claim C5, as the code has it. For a run that is not skipped in which the \<open>try\<close>
  block raises an exception (from the post source, a storage step, the report functions,
  the formatting of the floor or a notifier): when the exception is an instance of
  \<open>Exception\<close> and the \<open>finish_run\<close> of the handler does not fail, \<open>run_once\<close>
  raises that same exception, the run row created at the start is closed with status
  \<open>failed\<close>, zero counts, \<open>email_sent = False\<close> and the message made of the name
  of the exception's class and its text, and \<open>finish_run\<close> has updated the log once,
  for that row. An exception that is not an instance of \<open>Exception\<close> passes the
  handler, and a failure of the handler's \<open>finish_run\<close> is raised in place of the
  exception caught; in both cases the row stays \<open>started\<close>.
\<close>

theorem run_once_failure_closes_run:
  assumes p: "p = ''daily'' \<or> p = ''weekly''"
    and fresh: "\<not> has_successful_run_on_day p (ymd (runtime_of env)) (storage w)"
    and raised: "attempt env config p w = (Inl exc, w2)"
  shows "(is_exception exc \<and> storage_error env (FinishRun ''failed'') = None
      \<longrightarrow> fst (run_once env config p w) = Inl exc
        \<and> run_logs (storage (snd (run_once env config p w)))
            = run_logs (storage w)
               @ [closed_row (new_run_id (run_logs (storage w))) p (ymd (runtime_of env))
                    (timestamp (runtime_of env)) (finish_time env) ''failed''
                    (exn_type exc @ '': '' @ exn_msg exc)]
        \<and> finish_calls (snd (run_once env config p w))
            = finish_calls w @ [(new_run_id (run_logs (storage w)), ''failed'')])
     \<and> (\<not> is_exception exc
      \<longrightarrow> fst (run_once env config p w) = Inl exc
        \<and> run_logs (storage (snd (run_once env config p w)))
            = run_logs (storage w)
               @ [started_row (new_run_id (run_logs (storage w))) p (ymd (runtime_of env))
                    (timestamp (runtime_of env))]
        \<and> finish_calls (snd (run_once env config p w)) = finish_calls w)
     \<and> (\<forall>exc2. is_exception exc \<and> storage_error env (FinishRun ''failed'') = Some exc2
      \<longrightarrow> fst (run_once env config p w) = Inl exc2
        \<and> run_logs (storage (snd (run_once env config p w)))
            = run_logs (storage w)
               @ [started_row (new_run_id (run_logs (storage w))) p (ymd (runtime_of env))
                    (timestamp (runtime_of env))]
        \<and> finish_calls (snd (run_once env config p w)) = finish_calls w)"
proof -
  have frame: "run_logs (storage w2)
        = run_logs (storage w) @ [started_row (new_run_id (run_logs (storage w))) p
             (ymd (runtime_of env)) (timestamp (runtime_of env))]"
      "finish_calls w2 = finish_calls w"
    using try_block_failure_frame [OF raised [unfolded attempt_def]]
    by (simp_all add: run_logs_start_run)
  show ?thesis
    using raised frame finish_after_start [OF frame(1)]
    by (simp add: run_once_fresh [OF p fresh])
qed

text \<open>
  Claim C2, as the code has it, with a lookback window of \<open>max(lookback_hours, 1)\<close>
  hours. In a run that is not skipped every call of the post source gets the same floor,
  the subreddits are called in order, all of them when the run succeeds; the floor is
  the finish time \<open>T\<close> of the latest successful run of the period, as
  \<open>get_latest_successful_run\<close> reports it, when the start time less \<open>T\<close> is within
  the window, and the start time less the window otherwise.
\<close>

theorem run_once_fetch_floor:
  assumes p: "p = ''daily'' \<or> p = ''weekly''"
    and fresh: "\<not> has_successful_run_on_day p (ymd (runtime_of env)) (storage w)"
  shows "\<exists>lookback_floor.
     (\<exists>n\<le>length (subreddits config).
        fetch_calls (snd (run_once env config p w))
          = fetch_calls w @ map (\<lambda>s. (s, lookback_floor, max_posts_per_subreddit config))
                              (take n (subreddits config))
        \<and> (\<not> isl (fst (run_once env config p w)) \<longrightarrow> n = length (subreddits config)))
     \<and> (\<forall>r T. get_latest_successful_run p (storage w) = Some r \<and> run_finished_utc r = Some T
            \<and> timestamp (runtime_of env) - T \<le> max (lookback_hours config) 1 * 3600
          \<longrightarrow> lookback_floor = T)
     \<and> ((\<nexists>r T. get_latest_successful_run p (storage w) = Some r \<and> run_finished_utc r = Some T
            \<and> timestamp (runtime_of env) - T \<le> max (lookback_hours config) 1 * 3600)
          \<longrightarrow> lookback_floor
                = timestamp (runtime_of env) - max (lookback_hours config) 1 * 3600)"
proof -
  let ?F = "lookback_floor_of config (timestamp (runtime_of env))
              (get_latest_successful_run p (storage w))"
  obtain res w2 where att: "attempt env config p w = (res, w2)"
    by (cases "attempt env config p w") auto
  from try_block_fetch_calls [OF att [unfolded attempt_def]]
  obtain n where n: "n \<le> length (subreddits config)"
    "fetch_calls w2 = fetch_calls w
        @ map (\<lambda>s. (s, ?F, max_posts_per_subreddit config)) (take n (subreddits config))"
    "\<not> isl res \<longrightarrow> n = length (subreddits config)"
    by auto
  have calls: "fetch_calls (snd (run_once env config p w)) = fetch_calls w2"
    and res: "isl (fst (run_once env config p w)) = isl res"
    using att by (auto simp: run_once_fresh [OF p fresh] split: sum.splits option.splits)
  have a: "\<forall>r T. get_latest_successful_run p (storage w) = Some r \<and> run_finished_utc r = Some T
            \<and> timestamp (runtime_of env) - T \<le> max (lookback_hours config) 1 * 3600
          \<longrightarrow> ?F = T"
    by (auto simp: lookback_floor_of_def Let_def)
  have b: "(\<nexists>r T. get_latest_successful_run p (storage w) = Some r \<and> run_finished_utc r = Some T
            \<and> timestamp (runtime_of env) - T \<le> max (lookback_hours config) 1 * 3600)
          \<longrightarrow> ?F = timestamp (runtime_of env) - max (lookback_hours config) 1 * 3600"
    by (auto simp: lookback_floor_of_def Let_def split: option.splits)
  show ?thesis
    using n calls res a b by (intro exI [of _ ?F]) auto
qed

lemma score_post_gemini: "score_post post (config\<lparr>gemini := g\<rparr>) = score_post post config"
  by (simp add: score_post_def)

lemma extract_ideas_gemini: "extract_ideas posts (config\<lparr>gemini := g\<rparr>) = extract_ideas posts config"
proof -
  have "extract_loop posts (config\<lparr>gemini := g\<rparr>) = extract_loop posts config"
    by (induction posts) (simp_all add: score_post_gemini split: prod.splits)
  then show ?thesis by (simp add: extract_ideas_def)
qed

lemma fetch_loop_gemini:
  "fetch_loop env (config\<lparr>gemini := g\<rparr>) F subs posts w = fetch_loop env config F subs posts w"
  by (induction subs arbitrary: posts w) (simp_all add: Let_def split: sum.splits)

lemma persist_and_extract_gemini:
  "persist_and_extract env (config\<lparr>gemini := g\<rparr>) F started posts w
     = persist_and_extract env config F started posts w"
  by (simp add: persist_and_extract_def extract_ideas_gemini Let_def
      split: option.splits sum.splits)

lemma write_reports_gemini:
  "write_reports env (config\<lparr>gemini := g\<rparr>) p runtime window w
     = write_reports env config p runtime window w"
  by (simp add: write_reports_def Let_def split: option.splits sum.splits)

lemma notify_gemini:
  "notify env (config\<lparr>gemini := g\<rparr>) p F a b report name w
     = notify env config p F a b report name w"
  by (simp add: notify_def build_notifier_def Let_def split: option.splits sum.splits)

lemma try_block_gemini:
  "try_block env (config\<lparr>gemini := g\<rparr>) p runtime rid F started w
     = try_block env config p runtime rid F started w"
  by (simp add: try_block_def fetch_loop_gemini persist_and_extract_gemini
      write_reports_gemini notify_gemini Let_def split: prod.splits sum.splits)

lemma run_once_gemini: "run_once env (config\<lparr>gemini := g\<rparr>) p w = run_once env config p w"
  by (simp add: run_once_def try_block_gemini lookback_floor_of_def Let_def split: prod.splits sum.splits)

text \<open>
  Claim C3, as the code has it. \<open>run_once\<close> does not call the LLM merger: its result
  and its effects are the same whatever the enrichment configuration is, and in a run
  that succeeds the ideas handed to the report are those that \<open>get_ideas_since\<close> reads
  from the store with the floor of the fetch, after the extracted ideas were stored.
\<close>

theorem run_once_without_enrichment:
  "run_once env (config\<lparr>gemini := g\<rparr>) p w = run_once env config p w
   \<and> ((p = ''daily'' \<or> p = ''weekly'')
        \<and> \<not> has_successful_run_on_day p (ymd (runtime_of env)) (storage w)
        \<and> \<not> isl (fst (run_once env config p w))
      \<longrightarrow> render_calls (snd (run_once env config p w))
            = render_calls w
               @ [get_ideas_since
                    (lookback_floor_of config (timestamp (runtime_of env))
                       (get_latest_successful_run p (storage w)))
                    (storage (snd (run_once env config p w)))])"
proof (intro conjI impI)
  show "run_once env (config\<lparr>gemini := g\<rparr>) p w = run_once env config p w"
    by (rule run_once_gemini)
next
  assume a: "(p = ''daily'' \<or> p = ''weekly'')
        \<and> \<not> has_successful_run_on_day p (ymd (runtime_of env)) (storage w)
        \<and> \<not> isl (fst (run_once env config p w))"
  obtain res w2 where att: "attempt env config p w = (res, w2)"
    by (cases "attempt env config p w") auto
  have ro: "run_once env config p w =
     (case attempt env config p w of
        (Inr result, w2) \<Rightarrow> (Inr result, w2)
      | (Inl exc, w2) \<Rightarrow>
          if \<not> is_exception exc then (Inl exc, w2)
          else
            (case storage_error env (FinishRun ''failed'') of
               Some exc2 \<Rightarrow> (Inl exc2, w2)
             | None \<Rightarrow>
                 (Inl exc,
                  w2\<lparr>storage := finish_run (new_run_id (run_logs (storage w))) ''failed''
                                  (finish_time env) 0 0 0 False
                                  (exn_type exc @ '': '' @ exn_msg exc) (storage w2),
                     finish_calls := finish_calls w2
                        @ [(new_run_id (run_logs (storage w)), ''failed'')]\<rparr>)))"
    using a by (intro run_once_fresh) auto
  obtain r where r: "res = Inr r"
    using a att ro by (cases res) (auto split: option.splits if_splits)
  have w2: "snd (run_once env config p w) = w2" using ro att r by simp
  show "render_calls (snd (run_once env config p w))
            = render_calls w
               @ [get_ideas_since
                    (lookback_floor_of config (timestamp (runtime_of env))
                       (get_latest_successful_run p (storage w)))
                    (storage (snd (run_once env config p w)))]"
    using try_block_rendered [OF att [unfolded attempt_def r]] w2 by simp
qed

lemma example_now_fields:
  "timestamp example_now = 100000" "ymd example_now = ''1970-01-02''"
  "stamp example_now = ''19700102_034640''"
  by code_simp+

lemma example_late_now_fields:
  "timestamp example_late_now = 80000" "ymd example_late_now = ''1970-01-02''"
  "stamp example_late_now = ''19700102_001320''"
  "ymd (example_late_now\<lparr>utcoffset := 0\<rparr>) = ''1970-01-01''"
  by code_simp+

lemmas run_eval = run_once_def try_block_def persist_and_extract_def write_reports_def
  notify_def build_notifier_def lookback_floor_of_def get_latest_successful_run_def
  has_successful_run_on_day_def start_run_def finish_run_def new_run_id_def runtime_of_def
  finish_time_def example_env_def example_env_at_def example_now_fields
  example_late_now_fields example_world_def success_row_def
  sorts_before_def upsert_posts_def upsert_ideas_def get_ideas_since_def Let_def
  normal_daily

lemma cfg_fields:
  "subreddits example_config = [''s'']" "lookback_hours example_config = 168"
  "max_posts_per_subreddit example_config = 10" "smtp example_config = None"
  "telegram example_config = None" "output_dir example_config = ''o''"
  "report_top_n example_config = 10"
  by (simp_all add: example_config_def)

lemma run_once_skips_example:
  "res_status (projr (fst (run_once (example_env (Inr [])) example_config ''daily''
       (example_world [success_row ''1970-01-02'' 90000])))) = ''skipped_same_day''
   \<and> fetch_calls (snd (run_once (example_env (Inr [])) example_config ''daily''
       (example_world [success_row ''1970-01-02'' 90000]))) = []
   \<and> map status (run_logs (storage (snd (run_once (example_env (Inr [])) example_config
       ''daily'' (example_world [success_row ''1970-01-02'' 90000])))))
       = [''success'', ''skipped_same_day'']"
  using run_once_skips_when_day_matches [of "''daily''" "success_row ''1970-01-02'' 90000"
      "example_world [success_row ''1970-01-02'' 90000]" "example_env (Inr [])" example_config]
  by (simp add: example_world_def success_row_def runtime_of_def finish_time_def
      example_env_def example_now_fields closed_row_def)

text \<open>
  Claim C1 on the code, for a run time given in a zone other than UTC. The store holds a
  successful daily run of 1970-01-01. A second daily run is started 80000 seconds after
  the epoch, on the same UTC day, with the run time given in the zone two hours east of
  UTC. \<open>run_once\<close> reads the day with \<open>strftime\<close> from the run time as given,
  without converting it to UTC, and gets 1970-01-02: the run is not skipped, the post
  source is called, and the log holds two successful daily runs that began on the same
  UTC day.
\<close>

theorem run_once_non_utc_now_not_skipped:
  "ymd (example_late_now\<lparr>utcoffset := 0\<rparr>) = ''1970-01-01''
   \<and> has_successful_run_on_day ''daily'' ''1970-01-01''
       (storage (example_world [success_row ''1970-01-01'' 70000]))
   \<and> res_status (projr (fst (run_once (example_env_at example_late_now (Inr []))
         example_config ''daily'' (example_world [success_row ''1970-01-01'' 70000]))))
       = ''success''
   \<and> fetch_calls (snd (run_once (example_env_at example_late_now (Inr []))
         example_config ''daily'' (example_world [success_row ''1970-01-01'' 70000])))
       = [(''s'', 70000, 10)]
   \<and> map run_day_utc (run_logs (storage (snd (run_once
         (example_env_at example_late_now (Inr [])) example_config ''daily''
         (example_world [success_row ''1970-01-01'' 70000])))))
       = [''1970-01-01'', ''1970-01-02'']
   \<and> map status (run_logs (storage (snd (run_once
         (example_env_at example_late_now (Inr [])) example_config ''daily''
         (example_world [success_row ''1970-01-01'' 70000])))))
       = [''success'', ''success'']"
  by (simp add: run_eval cfg_fields extract_ideas_def py_sort_desc_def)

theorem run_once_fetch_floor_witness:
  "fetch_calls (snd (run_once (example_env (Inr [])) example_config ''daily''
       (example_world [success_row ''1970-01-01'' 80000]))) = [(''s'', 80000, 10)]"
  using run_once_fetch_floor [of "''daily''" "example_env (Inr [])"
      "example_world [success_row ''1970-01-01'' 80000]" example_config]
  by (simp add: run_eval cfg_fields extract_ideas_def py_sort_desc_def)

text \<open>
  The claim as worded, with a window of \<open>lookback_hours * 3600\<close> seconds, fails for
  \<open>lookback_hours = 0\<close>: on a cold start at time 100000 the floor passed to the post
  source is 96400, one hour back, not 100000.
\<close>

theorem run_once_fetch_floor_counterexample:
  "fetch_calls (snd (run_once (example_env (Inr [])) (example_config\<lparr>lookback_hours := 0\<rparr>)
       ''daily'' (example_world []))) = [(''s'', 96400, 10)]
   \<and> timestamp example_now - lookback_hours (example_config\<lparr>lookback_hours := 0\<rparr>) * 3600
       = 100000"
  by (simp add: run_eval cfg_fields extract_ideas_def py_sort_desc_def)

theorem run_once_failure_closes_run_witness:
  "fst (run_once (example_env (Inl example_failure)) example_config ''daily'' (example_world []))
     = Inl example_failure
   \<and> map status (run_logs (storage (snd (run_once (example_env (Inl example_failure))
         example_config ''daily'' (example_world []))))) = [''failed'']
   \<and> map message (run_logs (storage (snd (run_once (example_env (Inl example_failure))
         example_config ''daily'' (example_world [])))))
       = [''RuntimeError: Failed to fetch URL: u'']
   \<and> finish_calls (snd (run_once (example_env (Inl example_failure)) example_config ''daily''
         (example_world []))) = [(1, ''failed'')]"
  using run_once_failure_closes_run [of "''daily''" "example_env (Inl example_failure)"
      "example_world []" example_config example_failure
      "snd (attempt (example_env (Inl example_failure)) example_config ''daily''
         (example_world []))"]
  by (simp add: attempt_def run_eval cfg_fields closed_row_def example_failure_def)

text \<open>
  The claim as worded fails for an exception that is not an instance of \<open>Exception\<close>:
  when the post source is interrupted by \<open>KeyboardInterrupt\<close>, the handler is not
  entered, and the run row stays \<open>started\<close>.
\<close>

theorem run_once_failure_counterexample:
  "fst (run_once (example_env (Inl example_interrupt)) example_config ''daily''
       (example_world [])) = Inl example_interrupt
   \<and> map status (run_logs (storage (snd (run_once (example_env (Inl example_interrupt))
         example_config ''daily'' (example_world []))))) = [''started'']
   \<and> finish_calls (snd (run_once (example_env (Inl example_interrupt)) example_config
         ''daily'' (example_world []))) = []"
  by (simp add: run_eval cfg_fields example_interrupt_def)

lemma summary_example_a: "derive_problem_summary (example_post ''a'' ''tool'' ''x'') = ''x''"
  by code_simp

lemma hint_example_a:
  "derive_solution_hint (example_post ''a'' ''tool'' ''x'')
      [''keyword_match'', ''solution_possible'']
     = ''Validate demand with a small automation tool and a narrow landing page.''"
  by code_simp

lemma extract_example:
  "extract_ideas [example_post ''a'' ''tool'' ''x''] (llm_config n) = [example_extracted]"
  by (simp add: llm_config_def score_post_gemini extract_ideas_def py_sort_desc_def
      score_example_a min_score_example make_idea_def summary_example_a hint_example_a
      py_round_def example_extracted_def)
     (simp add: example_post_def)

lemma llm_cfg_fields:
  "subreddits (llm_config n) = [''s'']" "lookback_hours (llm_config n) = 168"
  "max_posts_per_subreddit (llm_config n) = 10" "smtp (llm_config n) = None"
  "telegram (llm_config n) = None" "output_dir (llm_config n) = ''o''"
  "report_top_n (llm_config n) = 10"
  by (simp_all add: llm_config_def example_config_def)

lemma stored_example:
  "idea_of_row (row_of_idea example_extracted t) = example_extracted"
  by (rule idea_of_row_of_idea) (simp add: storable_tags_def example_extracted_def)

lemma created_example: "r_created_utc (row_of_idea example_extracted t) = 5"
  by (simp add: row_of_idea_def example_extracted_def)

lemma fits_example:
  "idea_fits example_extracted 100000" "post_fits (example_post i t b) 100000"
  by (simp_all add: idea_fits_def post_fits_def fits_int64_def example_extracted_def
      example_post_def)

lemma run_example:
  "render_calls (snd (run_once (example_env (Inr [example_post ''a'' ''tool'' ''x'']))
       (llm_config 2) ''daily'' (example_world []))) = [[example_extracted]]
   \<and> \<not> isl (fst (run_once (example_env (Inr [example_post ''a'' ''tool'' ''x'']))
       (llm_config 2) ''daily'' (example_world [])))"
  by (simp add: run_eval llm_cfg_fields extract_example stored_example created_example
      fits_example)

theorem run_once_without_enrichment_witness:
  "run_once (example_env (Inr [example_post ''a'' ''tool'' ''x''])) (llm_config 2) ''daily''
       (example_world [])
     = run_once (example_env (Inr [example_post ''a'' ''tool'' ''x''])) example_config ''daily''
         (example_world [])
   \<and> \<not> isl (fst (run_once (example_env (Inr [example_post ''a'' ''tool'' ''x'']))
         (llm_config 2) ''daily'' (example_world [])))
   \<and> render_calls (snd (run_once (example_env (Inr [example_post ''a'' ''tool'' ''x'']))
         (llm_config 2) ''daily'' (example_world []))) = [[example_extracted]]"
  using run_once_without_enrichment
    [where env = "example_env (Inr [example_post ''a'' ''tool'' ''x''])"
       and config = example_config and g = "Some (example_gemini 2)" and p = "''daily''"
       and w = "example_world []"]
    run_example
  by (simp add: llm_config_def)

text \<open>
  The claim as worded fails: with enrichment enabled and an API key configured, the idea
  handed to the report has the heuristic score, no LLM profit score and no
  \<open>llm_assessed\<close> tag.
\<close>

theorem run_once_enrichment_counterexample:
  "gemini (llm_config 2) = Some (example_gemini 2)
   \<and> enabled (example_gemini 2) \<and> api_key (example_gemini 2) = ''fake-key''
   \<and> map llm_profit_score
       (concat (render_calls (snd (run_once
          (example_env (Inr [example_post ''a'' ''tool'' ''x''])) (llm_config 2) ''daily''
          (example_world []))))) = [None]
   \<and> map reason_tags
       (concat (render_calls (snd (run_once
          (example_env (Inr [example_post ''a'' ''tool'' ''x''])) (llm_config 2) ''daily''
          (example_world []))))) = [[''keyword_match'', ''solution_possible'']]
   \<and> map relevance_score
       (concat (render_calls (snd (run_once
          (example_env (Inr [example_post ''a'' ''tool'' ''x''])) (llm_config 2) ''daily''
          (example_world []))))) = [1.35]"
proof -
  have "gemini (llm_config 2) = Some (example_gemini 2)"
    by (simp add: llm_config_def)
  moreover have "enabled (example_gemini 2) \<and> api_key (example_gemini 2) = ''fake-key''"
    by (simp add: example_gemini_def)
  ultimately show ?thesis
    by (simp add: run_example example_extracted_def)
qed

section \<open>The tags the system produces can be stored\<close>

lemma storable_tags_set:
  "storable_tags tags = (\<forall>t \<in> set tags. t \<noteq> [] \<and> CHR '','' \<notin> set t)"
  by (simp add: storable_tags_def list_all_iff)

lemma storable_sorted_set: "storable_tags (py_sorted_set tags) = storable_tags tags"
  by (simp add: storable_tags_set py_sorted_set_set)

lemma score_post_tags_known:
  "set (snd (score_post post config))
     \<subseteq> set [''keyword_match'', ''noise_signal'', ''pain_point'', ''solution_possible'',
         ''monetization'', ''question'', ''low_signal'']"
  unfolding score_post_def Let_def
  by (simp add: py_sorted_set_set split: if_splits prod.splits)

lemma known_tags_storable:
  "storable_tags [''keyword_match'', ''noise_signal'', ''pain_point'', ''solution_possible'',
         ''monetization'', ''question'', ''low_signal'']"
  by code_simp

lemma score_post_tags_storable: "storable_tags (snd (score_post post config))"
  using score_post_tags_known [of post config] known_tags_storable
  unfolding storable_tags_set by blast

lemma normalize_reason_tags_storable: "storable_tags (normalize_reason_tags val)"
proof (cases val)
  case None
  then show ?thesis by (simp add: normalize_reason_tags_def storable_tags_def)
next
  case (Some items)
  have "CHR '','' \<notin> set (take 24 (normalize_tag item))" for item
  proof
    assume "CHR '','' \<in> set (take 24 (normalize_tag item))"
    then have "CHR '','' \<in> set (normalize_tag item)" by (rule in_set_takeD)
    then have "is_tag_char CHR '',''" by (simp add: normalize_tag_def)
    then show False by (simp add: is_tag_char_def)
  qed
  then show ?thesis
    using Some
    by (auto simp: normalize_reason_tags_def storable_sorted_set storable_tags_set Let_def
        py_sorted_set_set split: if_splits)
qed

lemma merge_assessment_storable:
  "storable_tags (reason_tags idea) \<Longrightarrow> storable_tags (assessment_tags a) \<Longrightarrow>
   storable_tags (reason_tags (merge_assessment idea a))"
proof -
  assume a: "storable_tags (reason_tags idea)" "storable_tags (assessment_tags a)"
  have "storable_tags (reason_tags idea @ [''llm_assessed''] @ assessment_tags a)"
    using a by (simp add: storable_tags_def)
  then show ?thesis
    by (simp add: merge_assessment_def storable_sorted_set)
qed

lemma extract_ideas_tags_storable:
  "idea \<in> set (extract_ideas posts config) \<Longrightarrow> storable_tags (reason_tags idea)"
proof -
  assume "idea \<in> set (extract_ideas posts config)"
  then have "idea \<in> set (map (idea_of_post config) (filter (qualifies config) posts))"
    by (simp add: extract_ideas_def py_sort_desc_set extract_loop_map_filter)
  then obtain post where "idea = idea_of_post config post" by auto
  then show ?thesis
    by (simp add: idea_of_post_def make_idea_def score_post_tags_storable)
qed

section \<open>The latest successful run\<close>

text \<open>
  \<open>get_latest_successful_run\<close> finds nothing exactly when the period has no successful
  run; what it finds is a successful run of the period that no other one exceeds in
  finish time, with a finish time of 0 read as absent.
\<close>

lemma null_less_irrefl: "\<not> null_less x x"
  by (cases x) auto

lemma first_in_order_mem: "first_in_order rows = Some r \<Longrightarrow> r \<in> set rows"
  by (induction rows arbitrary: r) (auto split: option.splits if_splits)

lemma first_in_order_None: "first_in_order rows = None \<longleftrightarrow> rows = []"
  by (induction rows) (auto split: option.splits)

lemma first_in_order_max:
  "first_in_order rows = Some r \<Longrightarrow> x \<in> set rows \<Longrightarrow> \<not> sorts_before x r"
proof (induction rows arbitrary: r)
  case Nil
  then show ?case by simp
next
  case (Cons a rows)
  show ?case
  proof (cases "first_in_order rows")
    case None
    then have "rows = []" by (simp add: first_in_order_None)
    then show ?thesis using Cons.prems by (auto simp: sorts_before_def null_less_irrefl)
  next
    case (Some b)
    note IH = Cons.IH [OF Some]
    show ?thesis
    proof (cases "sorts_before b a")
      case True
      then have r: "r = b" using Cons.prems(1) Some by simp
      show ?thesis
      proof (cases "x = a")
        case True
        with \<open>sorts_before b a\<close> r show ?thesis
          by (cases "run_finished_utc a"; cases "run_finished_utc b")
             (auto simp: sorts_before_def)
      next
        case False
        then show ?thesis using IH Cons.prems(2) r by simp
      qed
    next
      case False
      then have r: "r = a" using Cons.prems(1) Some by simp
      show ?thesis
      proof (cases "x = a")
        case True
        then show ?thesis using r by (auto simp: sorts_before_def null_less_irrefl)
      next
        case nx: False
        then have "x \<in> set rows" using Cons.prems(2) by simp
        then have nb: "\<not> sorts_before x b" by (rule IH)
        show ?thesis
          using nb False r
          by (cases "run_finished_utc a"; cases "run_finished_utc b";
              cases "run_finished_utc x")
             (auto simp: sorts_before_def)
      qed
    qed
  qed
qed


lemma get_latest_successful_run_None:
  "get_latest_successful_run p db = None
     \<longleftrightarrow> \<not> (\<exists>r \<in> set (run_logs db). period r = p \<and> status r = ''success'')"
proof -
  let ?rows = "filter (\<lambda>r. period r = p \<and> status r = ''success'') (run_logs db)"
  have "get_latest_successful_run p db = None \<longleftrightarrow> first_in_order ?rows = None"
    by (simp add: get_latest_successful_run_def split: option.splits)
  also have "\<dots> \<longleftrightarrow> ?rows = []"
    by (rule first_in_order_None)
  also have "\<dots> \<longleftrightarrow> \<not> (\<exists>r \<in> set (run_logs db). period r = p \<and> status r = ''success'')"
    by (simp add: filter_empty_conv)
  finally show ?thesis .
qed

lemma get_latest_successful_run_latest:
  assumes "get_latest_successful_run p db = Some r"
  shows "\<exists>row \<in> set (run_logs db).
           period row = p \<and> status row = ''success''
           \<and> r = row\<lparr>run_finished_utc :=
                     (case run_finished_utc row of
                        None \<Rightarrow> None
                      | Some v \<Rightarrow> if v \<noteq> 0 then Some v else None)\<rparr>
           \<and> (\<forall>x \<in> set (run_logs db). period x = p \<and> status x = ''success''
                  \<longrightarrow> \<not> null_less (run_finished_utc row) (run_finished_utc x))"
proof -
  let ?rows = "filter (\<lambda>r. period r = p \<and> status r = ''success'') (run_logs db)"
  obtain row where row: "first_in_order ?rows = Some row"
    and r: "r = row\<lparr>run_finished_utc :=
                     (case run_finished_utc row of
                        None \<Rightarrow> None
                      | Some v \<Rightarrow> if v \<noteq> 0 then Some v else None)\<rparr>"
    using assms by (auto simp: get_latest_successful_run_def split: option.splits)
  have mem: "row \<in> set ?rows" using row by (rule first_in_order_mem)
  have "\<not> null_less (run_finished_utc row) (run_finished_utc x)"
    if "x \<in> set ?rows" for x
    using first_in_order_max [OF row that] by (simp add: sorts_before_def)
  then show ?thesis using mem r by (intro bexI [of _ row]) auto
qed

end
